theory Spec2Isabelle
  imports Complex_Main "HOL-Library.AList" "HOL-Library.Multiset"
begin

section \<open>JavaScript values\<close>

text \<open>
  A JavaScript string is a sequence of UTF-16 code units; each code unit is a natural
  number below 65536. ASCII literals of the source are written with \<open>str\<close>, the other
  literals (Chinese text) as the list of their code units.
\<close>

type_synonym jsstring = "nat list"

definition str :: "string \<Rightarrow> jsstring" where
  "str s = map of_char s"

text \<open>
  Numbers are IEEE doubles in the source. Finite values are modelled as reals; the results
  of a division by zero are kept apart: \<open>0 / 0\<close> is \<open>NaN\<close>, a non-zero number over zero is an
  infinity. Rounding is not modelled: the cosine of a vector with itself, which is 1 here,
  can come out as 1.0000000000000002 in doubles (squared norm 3, for one).
\<close>

datatype jsnum = Num real | PosInf | NegInf | NaN

fun js_div :: "real \<Rightarrow> real \<Rightarrow> jsnum" where
  "js_div a b =
     (if b \<noteq> 0 then Num (a / b)
      else if a = 0 then NaN
      else if 0 < a then PosInf else NegInf)"

fun js_mul :: "jsnum \<Rightarrow> jsnum \<Rightarrow> jsnum" where
  "js_mul NaN _ = NaN"
| "js_mul _ NaN = NaN"
| "js_mul (Num a) (Num b) = Num (a * b)"
| "js_mul (Num a) PosInf = (if a = 0 then NaN else if 0 < a then PosInf else NegInf)"
| "js_mul (Num a) NegInf = (if a = 0 then NaN else if 0 < a then NegInf else PosInf)"
| "js_mul PosInf (Num b) = (if b = 0 then NaN else if 0 < b then PosInf else NegInf)"
| "js_mul NegInf (Num b) = (if b = 0 then NaN else if 0 < b then NegInf else PosInf)"
| "js_mul PosInf PosInf = PosInf"
| "js_mul NegInf NegInf = PosInf"
| "js_mul PosInf NegInf = NegInf"
| "js_mul NegInf PosInf = NegInf"

fun js_add :: "jsnum \<Rightarrow> jsnum \<Rightarrow> jsnum" where
  "js_add NaN _ = NaN"
| "js_add _ NaN = NaN"
| "js_add (Num a) (Num b) = Num (a + b)"
| "js_add (Num a) PosInf = PosInf"
| "js_add (Num a) NegInf = NegInf"
| "js_add PosInf (Num b) = PosInf"
| "js_add NegInf (Num b) = NegInf"
| "js_add PosInf PosInf = PosInf"
| "js_add NegInf NegInf = NegInf"
| "js_add PosInf NegInf = NaN"
| "js_add NegInf PosInf = NaN"

text \<open>Comparisons with \<open>NaN\<close> are false.\<close>

fun js_gt :: "jsnum \<Rightarrow> real \<Rightarrow> bool" where
  "js_gt (Num a) b = (a > b)"
| "js_gt PosInf b = True"
| "js_gt NegInf b = False"
| "js_gt NaN b = False"

fun js_ge :: "jsnum \<Rightarrow> real \<Rightarrow> bool" where
  "js_ge (Num a) b = (a \<ge> b)"
| "js_ge PosInf b = True"
| "js_ge NegInf b = False"
| "js_ge NaN b = False"

fun js_le :: "jsnum \<Rightarrow> real \<Rightarrow> bool" where
  "js_le (Num a) b = (a \<le> b)"
| "js_le PosInf b = False"
| "js_le NegInf b = True"
| "js_le NaN b = False"

subsection \<open>Objects used as dictionaries, \<open>Set\<close> and \<open>Map\<close>\<close>

text \<open>
  A plain object used as a dictionary is the list of its own properties in creation order.
  Assigning to an existing key keeps its place, assigning to a new key appends
  (\<open>AList.update\<close>). Properties inherited from \<open>Object.prototype\<close> are outside the model:
  the only token the tokenizer can produce that names one is \<open>constructor\<close>.

  \<open>Object.keys\<close>, \<open>Object.values\<close> and \<open>Object.entries\<close> list the array-index keys
  (canonical decimal numerals up to \<open>2^32 - 2\<close>) first, in ascending numeric order, and
  then the other keys in creation order.
\<close>

type_synonym 'v obj = "(jsstring \<times> 'v) list"

definition is_digit :: "nat \<Rightarrow> bool" where
  "is_digit c \<longleftrightarrow> 48 \<le> c \<and> c \<le> 57"

definition numeric_value :: "jsstring \<Rightarrow> nat" where
  "numeric_value k = fold (\<lambda>c n. 10 * n + (c - 48)) k 0"

definition is_array_index :: "jsstring \<Rightarrow> bool" where
  "is_array_index k \<longleftrightarrow>
     k \<noteq> [] \<and> list_all is_digit k \<and> (length k = 1 \<or> hd k \<noteq> 48) \<and>
     numeric_value k \<le> 4294967294"

definition object_entries :: "'v obj \<Rightarrow> (jsstring \<times> 'v) list" where
  "object_entries ob =
     sort_key (\<lambda>kv. numeric_value (fst kv)) (filter (\<lambda>kv. is_array_index (fst kv)) ob) @
     filter (\<lambda>kv. \<not> is_array_index (fst kv)) ob"

definition object_keys :: "'v obj \<Rightarrow> jsstring list" where
  "object_keys ob = map fst (object_entries ob)"

definition object_values :: "'v obj \<Rightarrow> 'v list" where
  "object_values ob = map snd (object_entries ob)"

text \<open>\<open>ob[k] || 0\<close>: a missing key and the value \<open>0\<close> both read as \<open>0\<close>.\<close>

definition get_or_zero :: "real obj \<Rightarrow> jsstring \<Rightarrow> real" where
  "get_or_zero ob k = (case map_of ob k of None \<Rightarrow> 0 | Some v \<Rightarrow> v)"

text \<open>
  A \<open>Set\<close> is the list of its members in insertion order, without repetition;
  \<open>new Set(xs)\<close> adds the elements of \<open>xs\<close> one after the other.
\<close>

definition set_add :: "'a \<Rightarrow> 'a list \<Rightarrow> 'a list" where
  "set_add x s = (if x \<in> set s then s else s @ [x])"

definition new_Set :: "'a list \<Rightarrow> 'a list" where
  "new_Set xs = fold set_add xs []"

text \<open>\<open>Array.prototype.join\<close>.\<close>

fun join :: "jsstring \<Rightarrow> jsstring list \<Rightarrow> jsstring" where
  "join sep [] = []"
| "join sep [x] = x"
| "join sep (x # y # ys) = x @ sep @ join sep (y # ys)"

text \<open>\<open>String.prototype.includes\<close>: the needle occurs as a contiguous part.\<close>

fun starts_with :: "jsstring \<Rightarrow> jsstring \<Rightarrow> bool" where
  "starts_with s [] = True"
| "starts_with [] (p # ps) = False"
| "starts_with (c # cs) (p # ps) = (c = p \<and> starts_with cs ps)"

fun str_includes :: "jsstring \<Rightarrow> jsstring \<Rightarrow> bool" where
  "str_includes [] p = (p = [])"
| "str_includes (c # cs) p = (starts_with (c # cs) p \<or> str_includes cs p)"

text \<open>
  \<open>String.prototype.toLowerCase\<close>. The letters \<open>A\<close> to \<open>Z\<close> become \<open>a\<close> to \<open>z\<close>; the Kelvin
  sign U+212A becomes \<open>k\<close> and U+0130 becomes \<open>i\<close> followed by U+0307: these are all the
  characters whose lower case contains an ASCII letter. Every other code unit is kept; the
  Unicode lower-casing of the remaining letters neither yields nor changes an ASCII letter,
  a digit, a space or a CJK ideograph, which are the only characters the tokenizer and the
  question patterns look at.
\<close>

definition lower_unit :: "nat \<Rightarrow> jsstring" where
  "lower_unit c =
     (if 65 \<le> c \<and> c \<le> 90 then [c + 32]
      else if c = 8490 then [107]
      else if c = 304 then [105, 775]
      else [c])"

definition toLowerCase :: "jsstring \<Rightarrow> jsstring" where
  "toLowerCase s = concat (map lower_unit s)"

section \<open>Text processing (utils/text)\<close>

definition CHINESE_STOPWORDS :: "jsstring list" where
  "CHINESE_STOPWORDS =
  [[30340], [20102], [22312], [26159], [25105], [26377], [21644], [23601], [19981],
   [20154], [37117], [19968], [19968, 20491], [19978], [20063], [24456], [21040],
   [35498], [35201], [21435], [20320], [26371], [33879], [27794, 26377], [30475],
   [22909], [33258, 24049], [36889], [37027], [20160, 40636], [20182], [22905],
   [23427], [20497], [36889, 20491], [37027, 20491], [22914, 26524], [20294, 26159],
   [22240, 28858], [25152, 20197], [21487, 20197], [27794], [25226], [35731], [34987],
   [33287], [25110], [21450], [20043], [31561], [33021], [23559], [24478], [28858],
   [23565], [32780], [20197], [20854], [20013], [26356]]"

definition ENGLISH_STOPWORDS :: "jsstring list" where
  "ENGLISH_STOPWORDS = map str
  [''the'', ''a'', ''an'', ''and'', ''or'', ''but'', ''in'', ''on'', ''at'', ''to'', ''for'',
   ''of'', ''with'', ''by'', ''from'', ''as'', ''is'', ''was'', ''are'', ''were'', ''been'',
   ''be'', ''have'', ''has'', ''had'', ''do'', ''does'', ''did'', ''will'', ''would'',
   ''could'', ''should'', ''may'', ''might'', ''must'', ''can'', ''this'', ''that'',
   ''these'', ''those'', ''it'', ''its'', ''they'', ''them'', ''their'', ''he'', ''she'',
   ''him'', ''her'', ''his'', ''we'', ''us'', ''our'', ''you'', ''your'', ''i'', ''me'',
   ''my'', ''not'', ''no'', ''if'', ''then'', ''than'', ''so'', ''such'', ''when'',
   ''where'', ''what'', ''which'', ''who'', ''whom'', ''how'', ''why'', ''all'', ''each'',
   ''every'', ''both'', ''few'', ''more'', ''most'', ''other'', ''some'', ''any'', ''only'',
   ''own'', ''same'', ''just'', ''also'', ''very'', ''even'', ''still'', ''about'',
   ''after'', ''before'']"

definition isChinese :: "nat \<Rightarrow> bool" where
  "isChinese code \<longleftrightarrow> 19968 \<le> code \<and> code \<le> 40959"

definition is_lower_letter :: "nat \<Rightarrow> bool" where
  "is_lower_letter c \<longleftrightarrow> 97 \<le> c \<and> c \<le> 122"

datatype token_type = chinese | english | number

text \<open>
  The state of the loop of \<open>tokenize\<close>: the tokens pushed so far, the token being built
  and its type. The source iterates over code points; a code point outside the basic plane
  is a surrogate pair, and a surrogate is neither an ideograph of the range tested nor a
  letter nor a digit, so that walking the code units takes the same branches.
\<close>

record tok_state =
  tokens :: "jsstring list"
  currentToken :: jsstring
  currentType :: "token_type option"

definition tokenize_step :: "nat \<Rightarrow> tok_state \<Rightarrow> tok_state" where
  "tokenize_step char st =
     (if isChinese char then
        \<lparr> tokens =
            (if currentToken st \<noteq> [] \<and> currentType st \<noteq> Some chinese
             then tokens st @ [currentToken st] else tokens st) @ [[char]],
          currentToken = [],
          currentType = Some chinese \<rparr>
      else if is_lower_letter char then
        (if currentType st \<noteq> Some english \<and> currentToken st \<noteq> []
         then \<lparr> tokens = tokens st @ [currentToken st], currentToken = [char],
                currentType = Some english \<rparr>
         else \<lparr> tokens = tokens st, currentToken = currentToken st @ [char],
                currentType = Some english \<rparr>)
      else if is_digit char then
        (if currentType st \<noteq> Some number \<and> currentToken st \<noteq> []
         then \<lparr> tokens = tokens st @ [currentToken st], currentToken = [char],
                currentType = Some number \<rparr>
         else \<lparr> tokens = tokens st, currentToken = currentToken st @ [char],
                currentType = Some number \<rparr>)
      else
        \<lparr> tokens = (if currentToken st \<noteq> [] then tokens st @ [currentToken st]
                    else tokens st),
          currentToken = [],
          currentType = None \<rparr>)"

definition tokenize :: "jsstring \<Rightarrow> jsstring list" where
  "tokenize text =
     (if text = [] then []
      else
        let st = fold tokenize_step (toLowerCase text)
                   \<lparr> tokens = [], currentToken = [], currentType = None \<rparr>
        in if currentToken st \<noteq> [] then tokens st @ [currentToken st] else tokens st)"

definition removeStopwords :: "jsstring list \<Rightarrow> jsstring list" where
  "removeStopwords toks =
     filter (\<lambda>token.
        if length token = 1 \<and> isChinese (hd token)
        then token \<notin> set CHINESE_STOPWORDS
        else token \<notin> set ENGLISH_STOPWORDS \<and> length token > 1) toks"

definition extractNgrams :: "jsstring list \<Rightarrow> nat \<Rightarrow> jsstring list" where
  "extractNgrams toks n =
     map (\<lambda>i. concat (take n (drop i toks))) [0 ..< length toks + 1 - n]"

definition termFrequency :: "jsstring list \<Rightarrow> real obj" where
  "termFrequency toks =
     fold (\<lambda>token freq. AList.update token (get_or_zero freq token + 1) freq) toks []"

record preprocessed =
  pp_tokens :: "jsstring list"
  pp_bigrams :: "jsstring list"
  pp_all :: "jsstring list"

definition preprocess :: "jsstring \<Rightarrow> preprocessed" where
  "preprocess text =
     (let filtered = removeStopwords (tokenize text);
          bigrams = extractNgrams filtered 2
      in \<lparr> pp_tokens = filtered, pp_bigrams = bigrams, pp_all = filtered @ bigrams \<rparr>)"

text \<open>
  \<open>jaccardSimilarity\<close> divides the two sizes without looking at the divisor.
\<close>

definition jaccardSimilarity :: "'a list \<Rightarrow> 'a list \<Rightarrow> jsnum" where
  "jaccardSimilarity set1 set2 =
     (let intersection = new_Set (filter (\<lambda>x. x \<in> set set2) set1);
          union = new_Set (set1 @ set2)
      in js_div (real (length intersection)) (real (length union)))"

text \<open>
  \<open>cosineSimilarity\<close>: one pass over the keys of both vectors accumulates the dot product
  and the two squared norms.
\<close>

definition cosine_step ::
  "real obj \<Rightarrow> real obj \<Rightarrow> jsstring \<Rightarrow> real \<times> real \<times> real \<Rightarrow> real \<times> real \<times> real" where
  "cosine_step vec1 vec2 key acc =
     (case acc of (dotProduct, norm1, norm2) \<Rightarrow>
        let v1 = get_or_zero vec1 key; v2 = get_or_zero vec2 key
        in (dotProduct + v1 * v2, norm1 + v1 * v1, norm2 + v2 * v2))"

definition cosineSimilarity :: "real obj \<Rightarrow> real obj \<Rightarrow> real" where
  "cosineSimilarity vec1 vec2 =
     (let keys = new_Set (object_keys vec1 @ object_keys vec2)
      in case fold (cosine_step vec1 vec2) keys (0, 0, 0) of
           (dotProduct, norm1, norm2) \<Rightarrow>
             if norm1 = 0 \<or> norm2 = 0 then 0
             else dotProduct / (sqrt norm1 * sqrt norm2))"

section \<open>Articles\<close>

text \<open>
  An article record as the collaborators supply it. An absent optional text field is the
  empty string and an absent list is the empty list: the source reads them through
  \<open>x || ''\<close>, \<open>x || []\<close>, \<open>x?.\<close> and \<open>join\<close>, which do not tell them apart. \<open>savedAt\<close> is the
  instant the ISO-8601 text denotes, in milliseconds since the epoch, or \<open>None\<close> when the
  field is absent; texts that are not dates are outside the model.
\<close>

record article =
  aid :: jsstring
  title :: jsstring
  content :: jsstring
  summary :: jsstring
  keyPoints :: "jsstring list"
  url :: jsstring
  category :: jsstring
  tags :: "jsstring list"
  savedAt :: "int option"

text \<open>\<open>new Date(x || 0)\<close>, as milliseconds.\<close>

definition date_or_epoch :: "int option \<Rightarrow> int" where
  "date_or_epoch d = (case d of None \<Rightarrow> 0 | Some t \<Rightarrow> t)"

section \<open>Connection discovery (analysis/connections)\<close>

record relation =
  tagOverlap :: real
  topicSimilarity :: real
  keyPointSimilarity :: jsnum
  totalScore :: jsnum
  types :: "jsstring list"
  sharedTags :: "jsstring list"

definition type_common_theme :: jsstring where
  "type_common_theme = [20849, 21516, 20027, 38988]"

definition type_similar_title :: jsstring where
  "type_similar_title = [27161, 38988, 30456, 20284]"

definition type_related_viewpoint :: jsstring where
  "type_related_viewpoint = [35264, 40670, 30456, 38364]"

definition type_same_category :: jsstring where
  "type_same_category = [21516, 39006, 25991, 31456]"

definition type_recently_related :: jsstring where
  "type_recently_related = [36817, 26399, 30456, 38364]"

definition relation_content :: "article \<Rightarrow> jsstring" where
  "relation_content a = join (str '' '') ([title a, summary a] @ keyPoints a)"

definition calculateRelation :: "article \<Rightarrow> article \<Rightarrow> relation" where
  "calculateRelation article1 article2 =
     (let tags1 = new_Set (tags article1);
          tags2 = new_Set (tags article2);
          shared = filter (\<lambda>t. t \<in> set tags2) tags1;
          overlap = real (length shared) /
                    real (max (max (length tags1) (length tags2)) 1);
          types1 = (if length shared \<ge> 2 then [type_common_theme] else []);
          title1Tokens = new_Set (pp_tokens (preprocess (title article1)));
          title2Tokens = new_Set (pp_tokens (preprocess (title article2)));
          titleSimilarity = jaccardSimilarity title1Tokens title2Tokens;
          types2 = types1 @ (if js_gt titleSimilarity 0.3 then [type_similar_title] else []);
          tf1 = termFrequency (pp_tokens (preprocess (relation_content article1)));
          tf2 = termFrequency (pp_tokens (preprocess (relation_content article2)));
          topic = cosineSimilarity tf1 tf2;
          kp1 = join (str '' '') (keyPoints article1);
          kp2 = join (str '' '') (keyPoints article2);
          kpSim = (if kp1 \<noteq> [] \<and> kp2 \<noteq> []
                   then jaccardSimilarity (new_Set (pp_tokens (preprocess kp1)))
                                          (new_Set (pp_tokens (preprocess kp2)))
                   else Num 0);
          types3 = types2 @ (if kp1 \<noteq> [] \<and> kp2 \<noteq> [] \<and> js_gt kpSim 0.2
                             then [type_related_viewpoint] else []);
          total = js_add (js_add (js_mul (Num overlap) (Num 0.4))
                                 (js_mul (Num topic) (Num 0.4)))
                         (js_mul kpSim (Num 0.2));
          types4 = types3 @ (if category article1 = category article2 \<and> category article1 \<noteq> []
                             then [type_same_category] else []);
          daysDiff = real_of_int \<bar>date_or_epoch (savedAt article1) -
                                  date_or_epoch (savedAt article2)\<bar> / (1000 * 60 * 60 * 24);
          types5 = types4 @ (if daysDiff \<le> 7 \<and> js_gt total 0.2
                             then [type_recently_related] else [])
      in \<lparr> tagOverlap = overlap, topicSimilarity = topic, keyPointSimilarity = kpSim,
           totalScore = total, types = types5, sharedTags = shared \<rparr>)"

section \<open>Trend analysis (analysis/trends)\<close>

text \<open>
  The analyzer holds the article array it was given. \<open>Array.prototype.filter\<close> returns a new
  array, \<open>Array.prototype.sort\<close> sorts the array it is called on, in place and stably, and
  returns that same array. An operation on the analyzer therefore returns its result together
  with the article array as the call leaves it.
\<close>

record timeline_entry =
  tl_date :: "int option"
  tl_title :: jsstring
  tl_id :: jsstring
  tl_category :: jsstring
  tl_keyPoints :: "jsstring list"

definition timeline_of :: "article \<Rightarrow> timeline_entry" where
  "timeline_of a =
     \<lparr> tl_date = savedAt a, tl_title = title a, tl_id = aid a, tl_category = category a,
       tl_keyPoints = take 2 (keyPoints a) \<rparr>"

definition sort_by_savedAt :: "article list \<Rightarrow> article list" where
  "sort_by_savedAt xs = sort_key (\<lambda>a. date_or_epoch (savedAt a)) xs"

definition matches_tag :: "jsstring \<Rightarrow> article \<Rightarrow> bool" where
  "matches_tag tag a \<longleftrightarrow>
     tag \<in> set (tags a) \<or>
     (title a \<noteq> [] \<and> str_includes (toLowerCase (title a)) (toLowerCase tag)) \<or>
     (content a \<noteq> [] \<and> str_includes (toLowerCase (content a)) (toLowerCase tag))"

text \<open>
  \<open>buildTimeline(tag)\<close>; the tag is \<open>None\<close> for \<open>null\<close> (the default). Without a tag, and
  with the empty tag, \<open>filtered\<close> is the stored array itself, which the sort then reorders.
\<close>

definition buildTimeline ::
  "article list \<Rightarrow> jsstring option \<Rightarrow> timeline_entry list \<times> article list" where
  "buildTimeline articles tag =
     (case tag of
        Some t \<Rightarrow>
          if t \<noteq> [] then
            (map timeline_of (sort_by_savedAt (filter (matches_tag t) articles)), articles)
          else
            (map timeline_of (sort_by_savedAt articles), sort_by_savedAt articles)
      | None \<Rightarrow>
          (map timeline_of (sort_by_savedAt articles), sort_by_savedAt articles))"

text \<open>The sibling \<open>sortByDate\<close> sorts a copy (\<open>[...this.articles]\<close>).\<close>

definition sortByDate :: "article list \<Rightarrow> bool \<Rightarrow> article list \<times> article list" where
  "sortByDate articles ascending =
     (if ascending then sort_key (\<lambda>a. date_or_epoch (savedAt a)) articles
      else sort_key (\<lambda>a. - date_or_epoch (savedAt a)) articles, articles)"

record trend_record =
  tr_tag :: "jsstring option"
  articleCount :: nat
  trend :: string
  recentCount :: nat
  olderCount :: nat
  firstMention :: "int option"
  lastMention :: "int option"
  tr_timeline :: "timeline_entry list"
  keyPointsEvolution :: "(int option \<times> jsstring list) list"

text \<open>
  \<open>new Date(a.date) > t\<close>: the date of an entry without \<open>savedAt\<close> is invalid and every
  comparison with it is false.
\<close>

definition date_after :: "int option \<Rightarrow> int \<Rightarrow> bool" where
  "date_after d t = (case d of None \<Rightarrow> False | Some x \<Rightarrow> x > t)"

definition date_not_after :: "int option \<Rightarrow> int \<Rightarrow> bool" where
  "date_not_after d t = (case d of None \<Rightarrow> False | Some x \<Rightarrow> x \<le> t)"

definition classify_trend :: "nat \<Rightarrow> nat \<Rightarrow> nat \<Rightarrow> string" where
  "classify_trend recent older n =
     (if real recent > real older * 1.5 then ''rising''
      else if real recent < real older * 0.5 \<and> older > 0 then ''declining''
      else if n = 1 then ''new''
      else ''stable'')"

text \<open>
  \<open>analyzeTrend(tag)\<close>, with the clock reading \<open>now\<close> (milliseconds) as a parameter. The
  message of the \<open>no_data\<close> answer and the description of the trend are texts for display
  and are left out; the fields that the \<open>no_data\<close> answer does not have are filled with
  \<open>0\<close>, \<open>None\<close> and \<open>[]\<close>.
\<close>

definition analyzeTrend ::
  "article list \<Rightarrow> int \<Rightarrow> jsstring option \<Rightarrow> trend_record \<times> article list" where
  "analyzeTrend articles now tag =
     (case buildTimeline articles tag of (timeline, articles') \<Rightarrow>
        if length timeline = 0 then
          (\<lparr> tr_tag = tag, articleCount = 0, trend = ''no_data'', recentCount = 0,
             olderCount = 0, firstMention = None, lastMention = None, tr_timeline = [],
             keyPointsEvolution = [] \<rparr>, articles')
        else
          let thirtyDaysAgo = now - 30 * 24 * 60 * 60 * 1000;
              sixtyDaysAgo = now - 60 * 24 * 60 * 60 * 1000;
              recent = length (filter (\<lambda>a. date_after (tl_date a) thirtyDaysAgo) timeline);
              older = length (filter (\<lambda>a. date_after (tl_date a) sixtyDaysAgo \<and>
                                          date_not_after (tl_date a) thirtyDaysAgo) timeline);
              keyPointsOverTime =
                filter (\<lambda>p. length (snd p) > 0)
                       (map (\<lambda>a. (tl_date a, tl_keyPoints a)) timeline)
          in (\<lparr> tr_tag = tag, articleCount = length timeline,
                trend = classify_trend recent older (length timeline),
                recentCount = recent, olderCount = older,
                firstMention = tl_date (hd timeline),
                lastMention = tl_date (last timeline),
                tr_timeline = drop (length timeline - 10) timeline,
                keyPointsEvolution =
                  drop (length keyPointsOverTime - 5) keyPointsOverTime \<rparr>, articles'))"

section \<open>TF-IDF vectorizer (embeddings/vectorizer)\<close>

datatype js_error = Error jsstring

record metadata =
  m_title :: jsstring
  m_category :: jsstring
  m_tags :: "jsstring list"
  m_savedAt :: "int option"

record document =
  d_id :: jsstring
  d_tokens :: "jsstring list"
  d_text :: jsstring
  d_metadata :: metadata
  termFreq :: "real obj"

record doc_vector =
  v_id :: jsstring
  vector :: "real obj"
  v_metadata :: metadata

record vectorizer =
  documents :: "document list"
  vocabulary :: "nat obj"
  idf :: "real obj"
  vectors :: "doc_vector list"
  fitted :: bool

definition new_vectorizer :: vectorizer where
  "new_vectorizer = \<lparr> documents = [], vocabulary = [], idf = [], vectors = [], fitted = False \<rparr>"

definition addDocument :: "vectorizer \<Rightarrow> jsstring \<Rightarrow> jsstring \<Rightarrow> metadata \<Rightarrow> vectorizer" where
  "addDocument vz ident text md =
     (let toks = pp_all (preprocess text)
      in vz \<lparr> documents := documents vz @
                 [\<lparr> d_id = ident, d_tokens = toks, d_text = text, d_metadata = md,
                    termFreq = termFrequency toks \<rparr>],
               fitted := False \<rparr>)"

text \<open>The first loop of \<open>calculateIDF\<close>: in how many documents each term occurs.\<close>

definition count_document :: "document \<Rightarrow> real obj \<Rightarrow> real obj" where
  "count_document doc docFreq =
     fold (\<lambda>term df. AList.update term (get_or_zero df term + 1) df)
          (new_Set (d_tokens doc)) docFreq"

definition document_frequency :: "document list \<Rightarrow> real obj" where
  "document_frequency docs = fold count_document docs []"

text \<open>
  The second loop writes into the \<open>idf\<close> and \<open>vocabulary\<close> objects of the vectorizer as they
  are: neither is emptied first. The index given to a term is the number of keys the
  vocabulary has at that moment.
\<close>

definition idf_step :: "nat \<Rightarrow> jsstring \<times> real \<Rightarrow> vectorizer \<Rightarrow> vectorizer" where
  "idf_step numDocs entry vz =
     (case entry of (term, freq) \<Rightarrow>
        vz \<lparr> idf := AList.update term (ln ((real numDocs + 1) / (freq + 1)) + 1) (idf vz),
             vocabulary := AList.update term (length (object_keys (vocabulary vz)))
                             (vocabulary vz) \<rparr>)"

definition calculateIDF :: "vectorizer \<Rightarrow> vectorizer" where
  "calculateIDF vz =
     fold (idf_step (length (documents vz)))
          (object_entries (document_frequency (documents vz))) vz"

definition idf_truthy :: "real obj \<Rightarrow> jsstring \<Rightarrow> bool" where
  "idf_truthy table term = (case map_of table term of None \<Rightarrow> False | Some w \<Rightarrow> w \<noteq> 0)"

definition vectorize :: "real obj \<Rightarrow> real obj \<Rightarrow> real obj" where
  "vectorize table tf =
     (let maxFreq = fold max (object_values tf) 1
      in fold (\<lambda>entry vec.
                 case entry of (term, freq) \<Rightarrow>
                   if idf_truthy table term
                   then AList.update term (freq / maxFreq * get_or_zero table term) vec
                   else vec)
              (object_entries tf) [])"

definition no_documents_message :: jsstring where
  "no_documents_message = [27794, 26377, 25991, 27284, 21487, 20197, 35347, 32244]"

definition fit :: "vectorizer \<Rightarrow> js_error + vectorizer" where
  "fit vz =
     (if length (documents vz) = 0 then Inl (Error no_documents_message)
      else
        let vz1 = calculateIDF vz
        in Inr (vz1 \<lparr> vectors :=
                        map (\<lambda>doc. \<lparr> v_id = d_id doc,
                                     vector = vectorize (idf vz1) (termFreq doc),
                                     v_metadata = d_metadata doc \<rparr>) (documents vz1),
                      fitted := True \<rparr>))"

definition transformQuery :: "vectorizer \<Rightarrow> jsstring \<Rightarrow> real obj" where
  "transformQuery vz query = vectorize (idf vz) (termFrequency (pp_all (preprocess query)))"

record scored =
  s_id :: jsstring
  score :: real
  s_metadata :: metadata

text \<open>
  The body of the vectorizer's \<open>search\<close> once it is fitted: score every vector against the
  query, keep the positive scores, sort by descending score (the sort is stable) and take
  the first \<open>topK\<close>.
\<close>

definition rank :: "vectorizer \<Rightarrow> jsstring \<Rightarrow> nat \<Rightarrow> scored list" where
  "rank vz query topK =
     (let queryVector = transformQuery vz query;
          scores = map (\<lambda>doc. \<lparr> s_id = v_id doc,
                                score = cosineSimilarity queryVector (vector doc),
                                s_metadata = v_metadata doc \<rparr>) (vectors vz)
      in take topK (sort_key (\<lambda>s. - score s) (filter (\<lambda>s. score s > 0) scores)))"

text \<open>
  \<open>search\<close> fits first when the vectorizer is not fitted; the exception of \<open>fit\<close> passes
  through. The vectorizer as the call leaves it comes back with the result.
\<close>

definition vz_search :: "vectorizer \<Rightarrow> jsstring \<Rightarrow> nat \<Rightarrow> js_error + (scored list \<times> vectorizer)" where
  "vz_search vz query topK =
     (if \<not> fitted vz then
        (case fit vz of
           Inl e \<Rightarrow> Inl e
         | Inr vz1 \<Rightarrow> Inr (rank vz1 query topK, vz1))
      else Inr (rank vz query topK, vz))"

section \<open>Semantic search (search/semantic)\<close>

record semantic_search =
  vectorizer :: vectorizer
  articles :: "(jsstring \<times> article) list"

definition new_search :: semantic_search where
  "new_search = \<lparr> vectorizer = new_vectorizer, articles = [] \<rparr>"

definition searchableText :: "article \<Rightarrow> jsstring" where
  "searchableText a =
     join (str '' '') ([title a, content a, summary a] @ keyPoints a @ tags a)"

definition indexArticle :: "article \<Rightarrow> semantic_search \<Rightarrow> semantic_search" where
  "indexArticle a ss =
     \<lparr> vectorizer = addDocument (vectorizer ss) (aid a) (searchableText a)
                      \<lparr> m_title = title a, m_category = category a, m_tags = tags a,
                        m_savedAt = savedAt a \<rparr>,
       articles = AList.update (aid a) a (articles ss) \<rparr>"

definition indexArticles :: "semantic_search \<Rightarrow> article list \<Rightarrow> js_error + semantic_search" where
  "indexArticles ss arts =
     (let ss1 = fold indexArticle arts ss
      in case fit (vectorizer ss1) of
           Inl e \<Rightarrow> Inl e
         | Inr vz \<Rightarrow> Inr (ss1 \<lparr> vectorizer := vz \<rparr>))"

text \<open>
  \<open>content.split\<close> on the sentence marks (U+3002, U+FF01, U+FF1F and the ASCII full stop,
  exclamation mark and question mark): the pieces between maximal runs of marks, with an
  empty piece before a leading and after a trailing run.
\<close>

definition is_sentence_mark :: "nat \<Rightarrow> bool" where
  "is_sentence_mark c \<longleftrightarrow> c \<in> set [12290, 65281, 65311, 46, 33, 63]"

definition split_step ::
  "nat \<Rightarrow> jsstring list \<times> jsstring \<times> bool \<Rightarrow> jsstring list \<times> jsstring \<times> bool" where
  "split_step c st =
     (case st of (pieces, current, in_run) \<Rightarrow>
        if is_sentence_mark c
        then (if in_run then (pieces, current, True) else (pieces @ [current], [], True))
        else (pieces, current @ [c], False))"

definition split_sentences :: "jsstring \<Rightarrow> jsstring list" where
  "split_sentences s =
     (case fold split_step s ([], [], False) of (pieces, current, in_run) \<Rightarrow>
        pieces @ [current])"

text \<open>\<open>String.prototype.trim\<close> removes white space and line terminators at both ends.\<close>

definition is_space :: "nat \<Rightarrow> bool" where
  "is_space c \<longleftrightarrow>
     c \<in> set [9, 10, 11, 12, 13, 32, 160, 5760, 8232, 8233, 8239, 8287, 12288, 65279] \<or>
     (8192 \<le> c \<and> c \<le> 8202)"

definition trim :: "jsstring \<Rightarrow> jsstring" where
  "trim s = rev (dropWhile is_space (rev (dropWhile is_space s)))"

definition extractRelevantSnippets :: "jsstring \<Rightarrow> jsstring \<Rightarrow> nat \<Rightarrow> jsstring list" where
  "extractRelevantSnippets query text maxSnippets =
     (let queryTokens = new_Set (pp_tokens (preprocess query));
          sentences = filter (\<lambda>s. length (trim s) > 15) (split_sentences text);
          scored = map (\<lambda>sentence.
                     (trim sentence,
                      real (length (filter (\<lambda>t. t \<in> set queryTokens)
                                       (pp_tokens (preprocess sentence)))) /
                      real (max (length queryTokens) 1))) sentences
      in map fst (take maxSnippets
                   (sort_key (\<lambda>p. - snd p) (filter (\<lambda>p. snd p > 0) scored))))"

record search_result =
  r_id :: jsstring
  r_score :: real
  r_metadata :: metadata
  r_title :: jsstring
  r_category :: jsstring
  r_tags :: "jsstring list"
  r_url :: jsstring
  r_savedAt :: "int option"
  r_snippets :: "jsstring list option"
  r_summary :: "jsstring option"
  r_keyPoints :: "jsstring list option"

definition enhance ::
  "(jsstring \<times> article) list \<Rightarrow> jsstring \<Rightarrow> bool \<Rightarrow> scored \<Rightarrow> search_result" where
  "enhance store query includeSnippets result =
     (case map_of store (s_id result) of
        None \<Rightarrow>
          \<lparr> r_id = s_id result, r_score = score result, r_metadata = s_metadata result,
            r_title = str ''Unknown'', r_category = [], r_tags = [], r_url = [],
            r_savedAt = None, r_snippets = None, r_summary = None, r_keyPoints = None \<rparr>
      | Some a \<Rightarrow>
          \<lparr> r_id = s_id result, r_score = score result, r_metadata = s_metadata result,
            r_title = (if title a \<noteq> [] then title a else str ''Unknown''),
            r_category = category a, r_tags = tags a, r_url = url a, r_savedAt = savedAt a,
            r_snippets = (if includeSnippets \<and> content a \<noteq> []
                          then Some (extractRelevantSnippets query (content a) 3) else None),
            r_summary = (if summary a \<noteq> [] then Some (summary a) else None),
            r_keyPoints = Some (keyPoints a) \<rparr>)"

definition search ::
  "semantic_search \<Rightarrow> jsstring \<Rightarrow> nat \<Rightarrow> real \<Rightarrow> bool \<Rightarrow>
     js_error + (search_result list \<times> semantic_search)" where
  "search ss query topK minScore includeSnippets =
     (case (if \<not> fitted (vectorizer ss) then fit (vectorizer ss) else Inr (vectorizer ss)) of
        Inl e \<Rightarrow> Inl e
      | Inr vz1 \<Rightarrow>
          (case vz_search vz1 query topK of
             Inl e \<Rightarrow> Inl e
           | Inr (results, vz2) \<Rightarrow>
               Inr (map (enhance (articles ss) query includeSnippets)
                        (filter (\<lambda>r. score r \<ge> minScore) results),
                    ss \<lparr> vectorizer := vz2 \<rparr>)))"

record context_entry =
  c_title :: jsstring
  relevance :: real
  c_snippets :: "jsstring list"
  c_summary :: "jsstring option"
  c_keyPoints :: "jsstring list option"
  c_source :: jsstring

record search_context =
  question :: jsstring
  results :: "context_entry list"
  hasRelevantInfo :: bool

definition context_of :: "search_result \<Rightarrow> context_entry" where
  "context_of r =
     \<lparr> c_title = r_title r, relevance = r_score r,
       c_snippets = (case r_snippets r of None \<Rightarrow> [] | Some sn \<Rightarrow> sn),
       c_summary = r_summary r, c_keyPoints = r_keyPoints r, c_source = r_url r \<rparr>"

definition searchWithContext ::
  "semantic_search \<Rightarrow> jsstring \<Rightarrow> nat \<Rightarrow> js_error + (search_context \<times> semantic_search)" where
  "searchWithContext ss q topK =
     (case search ss q topK 0.1 True of
        Inl e \<Rightarrow> Inl e
      | Inr (rs, ss1) \<Rightarrow>
          Inr (\<lparr> question = q, results = map context_of rs,
                 hasRelevantInfo = (case rs of [] \<Rightarrow> False | r # _ \<Rightarrow> r_score r > 0.15) \<rparr>,
               ss1))"

definition findSimilar ::
  "semantic_search \<Rightarrow> jsstring \<Rightarrow> nat \<Rightarrow> js_error + (search_result list \<times> semantic_search)" where
  "findSimilar ss articleId topK =
     (case map_of (articles ss) articleId of
        None \<Rightarrow> Inr ([], ss)
      | Some a \<Rightarrow>
          (case search ss (join (str '' '') ([title a, summary a] @ keyPoints a))
                  (topK + 1) 0.1 True of
             Inl e \<Rightarrow> Inl e
           | Inr (rs, ss1) \<Rightarrow> Inr (take topK (filter (\<lambda>r. r_id r \<noteq> articleId) rs), ss1)))"

section \<open>Question answering (qa/engine)\<close>

text \<open>
  The regular expressions of \<open>analyzeQuestion\<close> have two shapes: a literal text, with or
  without the flag \<open>i\<close>, and one literal, \<open>.*\<close>, another literal. \<open>test\<close> looks for a match
  anywhere in the subject. The dot matches every code unit but the line terminators. Under
  the flag \<open>i\<close> (without \<open>u\<close>) two code units match when their canonical forms agree; the
  literals with the flag are ASCII, and a code unit from 128 on never has an ASCII canonical
  form, so that the canonical form is needed on ASCII letters only.
\<close>

datatype regex =
  Literal bool jsstring
| LiteralThenLiteral jsstring jsstring

definition canonicalize :: "bool \<Rightarrow> nat \<Rightarrow> nat" where
  "canonicalize ignoreCase c = (if ignoreCase \<and> is_lower_letter c then c - 32 else c)"

definition is_line_terminator :: "nat \<Rightarrow> bool" where
  "is_line_terminator c \<longleftrightarrow> c \<in> set [10, 13, 8232, 8233]"

fun dots_then :: "jsstring \<Rightarrow> jsstring \<Rightarrow> bool" where
  "dots_then [] q = starts_with [] q"
| "dots_then (c # cs) q =
     (starts_with (c # cs) q \<or> (\<not> is_line_terminator c \<and> dots_then cs q))"

fun literal_dots_literal :: "jsstring \<Rightarrow> jsstring \<Rightarrow> jsstring \<Rightarrow> bool" where
  "literal_dots_literal [] p q = (starts_with [] p \<and> dots_then [] q)"
| "literal_dots_literal (c # cs) p q =
     ((starts_with (c # cs) p \<and> dots_then (drop (length p) (c # cs)) q) \<or>
      literal_dots_literal cs p q)"

fun regex_test :: "regex \<Rightarrow> jsstring \<Rightarrow> bool" where
  "regex_test (Literal ignoreCase p) s =
     str_includes (map (canonicalize ignoreCase) s) (map (canonicalize ignoreCase) p)"
| "regex_test (LiteralThenLiteral p q) s = literal_dots_literal s p q"

text \<open>The pattern groups, in the order the object literal declares them.\<close>

definition patterns :: "(string \<times> regex list) list" where
  "patterns =
    [(''definition'',
        [Literal False [20160, 40636, 26159],
         Literal False [20309, 35586],
         Literal False [24590, 40636, 29702, 35299],
         Literal True (str ''what is''),
         Literal True (str ''define''),
         Literal True (str ''explain'')]),
     (''comparison'',
        [LiteralThenLiteral [21644] [27604],
         Literal False [21312, 21029],
         Literal False [24046, 30064],
         Literal False [19981, 21516],
         Literal True (str ''vs''),
         Literal True (str ''compare''),
         Literal True (str ''difference'')]),
     (''listing'',
        [Literal False [26377, 21738, 20123],
         Literal False [21015, 20986],
         Literal False [21253, 25324],
         Literal True (str ''what are''),
         Literal True (str ''list'')]),
     (''reason'',
        [Literal False [28858, 20160, 40636],
         Literal False [21407, 22240],
         Literal True (str ''why''),
         Literal True (str ''reason'')]),
     (''summary'',
        [Literal False [32317, 32080],
         Literal False [25688, 35201],
         Literal False [27010, 25324],
         Literal True (str ''summarize''),
         Literal True (str ''summary'')]),
     (''trend'',
        [Literal False [36264, 21218],
         Literal False [30332, 23637],
         Literal False [26410, 20358],
         Literal True (str ''trend''),
         Literal True (str ''future'')]),
     (''opinion'',
        [Literal False [35264, 40670],
         Literal False [30475, 27861],
         Literal False [35469, 28858],
         Literal True (str ''opinion''),
         Literal True (str ''think''),
         Literal True (str ''view'')])]"

text \<open>The two nested loops of \<open>analyzeQuestion\<close>; the inner one returns at the first hit.\<close>

fun test_list :: "regex list \<Rightarrow> jsstring \<Rightarrow> bool" where
  "test_list [] s = False"
| "test_list (r # rs) s = (if regex_test r s then True else test_list rs s)"

fun scan_groups :: "(string \<times> regex list) list \<Rightarrow> jsstring \<Rightarrow> string" where
  "scan_groups [] s = ''general''"
| "scan_groups ((ty, regexList) # groups) s =
     (if test_list regexList s then ty else scan_groups groups s)"

definition analyzeQuestion :: "jsstring \<Rightarrow> string" where
  "analyzeQuestion q = scan_groups patterns (toLowerCase q)"

text \<open>
  The dispatch in the words of the specification: of the categories \<open>definition\<close>,
  \<open>comparison\<close>, \<open>listing\<close>, \<open>reason\<close>, \<open>summary\<close>, \<open>trend\<close>, \<open>opinion\<close>, in this order, the
  first one with a matching pattern wins, and \<open>general\<close> is the answer when none matches.
\<close>

definition category_matches :: "string \<Rightarrow> jsstring \<Rightarrow> bool" where
  "category_matches ty q =
     list_ex (\<lambda>group. fst group = ty \<and>
                list_ex (\<lambda>r. regex_test r (toLowerCase q)) (snd group)) patterns"

definition first_matching_category :: "jsstring \<Rightarrow> string" where
  "first_matching_category q =
     (case List.find (\<lambda>ty. category_matches ty q)
             [''definition'', ''comparison'', ''listing'', ''reason'', ''summary'',
              ''trend'', ''opinion''] of
        None \<Rightarrow> ''general''
      | Some ty \<Rightarrow> ty)"

section \<open>Example data\<close>

text \<open>
  An article with the given id, title, key points, tags and date, the other fields absent,
  and three instants: 2026-02-01T00:00:00Z, 2026-01-30T10:00:00Z and 2025-10-01T10:00:00Z.
\<close>

definition article_with ::
  "jsstring \<Rightarrow> jsstring \<Rightarrow> jsstring list \<Rightarrow> jsstring list \<Rightarrow> int option \<Rightarrow> article" where
  "article_with i ttl kps tgs t =
     \<lparr> aid = i, title = ttl, content = [], summary = [], keyPoints = kps, url = [],
       category = [], tags = tgs, savedAt = t \<rparr>"

definition feb_1 :: int where "feb_1 = 1769904000000"

definition jan_30 :: int where "jan_30 = 1769767200000"

definition oct_1 :: int where "oct_1 = 1759312800000"

text \<open>
  The metadata \<open>{}\<close> that \<open>addDocument\<close> takes by default, and a vectorizer holding the
  single document \<open>hello world\<close>.
\<close>

definition no_metadata :: metadata where
  "no_metadata = \<lparr> m_title = [], m_category = [], m_tags = [], m_savedAt = None \<rparr>"

definition hello_vectorizer :: vectorizer where
  "hello_vectorizer =
     addDocument new_vectorizer (str ''doc1'') (str ''hello world'') no_metadata"

text \<open>
  Two articles that have the title \<open>RWA\<close> and nothing else, the index of the first one
  alone and the index of both, as \<open>indexArticles\<close> builds them.
\<close>

definition rwa_article :: article where
  "rwa_article = article_with (str ''a'') (str ''RWA'') [] [] None"

definition rwa_copy :: article where
  "rwa_copy = article_with (str ''b'') (str ''RWA'') [] [] None"

definition rwa_metadata :: metadata where
  "rwa_metadata = \<lparr> m_title = str ''RWA'', m_category = [], m_tags = [], m_savedAt = None \<rparr>"

definition rwa_document :: "jsstring \<Rightarrow> document" where
  "rwa_document i =
     \<lparr> d_id = i, d_tokens = [str ''rwa''], d_text = str ''RWA  '',
       d_metadata = rwa_metadata, termFreq = [(str ''rwa'', 1)] \<rparr>"

definition rwa_vector :: "jsstring \<Rightarrow> doc_vector" where
  "rwa_vector i = \<lparr> v_id = i, vector = [(str ''rwa'', 1)], v_metadata = rwa_metadata \<rparr>"

definition rwa_index :: semantic_search where
  "rwa_index =
     \<lparr> vectorizer =
         \<lparr> documents = [rwa_document (str ''a'')],
           vocabulary = [(str ''rwa'', 0)],
           idf = [(str ''rwa'', 1)],
           vectors = [rwa_vector (str ''a'')],
           fitted = True \<rparr>,
       articles = [(str ''a'', rwa_article)] \<rparr>"

definition twin_index :: semantic_search where
  "twin_index =
     \<lparr> vectorizer =
         \<lparr> documents = [rwa_document (str ''a''), rwa_document (str ''b'')],
           vocabulary = [(str ''rwa'', 0)],
           idf = [(str ''rwa'', 1)],
           vectors = [rwa_vector (str ''a''), rwa_vector (str ''b'')],
           fitted = True \<rparr>,
       articles = [(str ''a'', rwa_article), (str ''b'', rwa_copy)] \<rparr>"

text \<open>
  A search engine whose vectorizer was loaded with \<open>import\<close>: one vector of norm 20 whose
  weight for \<open>rwa\<close> is 3.
\<close>

definition boundary_index :: semantic_search where
  "boundary_index =
     \<lparr> vectorizer =
         \<lparr> documents = [], vocabulary = [(str ''rwa'', 0)], idf = [(str ''rwa'', 1)],
           vectors = [\<lparr> v_id = str ''a'',
                        vector = [(str ''rwa'', 3), (str ''defi'', 19), (str ''token'', 5),
                                  (str ''asset'', 2), (str ''chain'', 1)],
                        v_metadata = rwa_metadata \<rparr>],
           fitted = True \<rparr>,
       articles = [(str ''a'', rwa_article)] \<rparr>"

section \<open>Properties of the text utilities\<close>

lemma set_new_Set_aux: "set (fold set_add xs acc) = set xs \<union> set acc"
  by (induction xs arbitrary: acc) (auto simp: set_add_def)

lemma distinct_new_Set_aux: "distinct acc \<Longrightarrow> distinct (fold set_add xs acc)"
  by (induction xs arbitrary: acc) (auto simp: set_add_def)

lemma set_new_Set: "set (new_Set xs) = set xs"
  by (simp add: new_Set_def set_new_Set_aux)

lemma distinct_new_Set: "distinct (new_Set xs)"
  by (simp add: new_Set_def distinct_new_Set_aux)

lemma length_new_Set: "length (new_Set xs) = card (set xs)"
  using distinct_card [OF distinct_new_Set, of xs] by (simp add: set_new_Set)

lemma length_object_entries: "length (object_entries ob) = length ob"
  by (simp add: object_entries_def sum_length_filter_compl)

lemma length_object_keys: "length (object_keys ob) = length ob"
  by (simp add: object_keys_def length_object_entries)

lemma str_eq_Nil: "(str s = []) = (s = [])"
  by (simp add: str_def)

lemma str_eq_iff: "(str a = str b) = (a = b)"
proof -
  have "inj (of_char :: char \<Rightarrow> nat)"
    by (rule injI) simp
  then show ?thesis
    by (simp add: str_def inj_map_eq_map)
qed

lemma js_add_NaN: "js_add x NaN = NaN"
  by (cases x) simp_all

text \<open>\<open>jaccardSimilarity\<close> is the ratio of the sizes of the intersection and the union.\<close>

lemma jaccardSimilarity_card:
  "jaccardSimilarity a b =
     js_div (real (card (set a \<inter> set b))) (real (card (set a \<union> set b)))"
proof -
  have "set (filter (\<lambda>x. x \<in> set b) a) = set a \<inter> set b"
    by auto
  then show ?thesis
    by (simp add: jaccardSimilarity_def Let_def length_new_Set del: js_div.simps set_filter)
qed

lemma jaccardSimilarity_commute: "jaccardSimilarity a b = jaccardSimilarity b a"
  by (simp only: jaccardSimilarity_card Int_commute Un_commute)

lemma jaccardSimilarity_bounds:
  assumes "a \<noteq> [] \<or> b \<noteq> []"
  shows "\<exists>r. jaccardSimilarity a b = Num r \<and> 0 \<le> r \<and> r \<le> 1"
proof -
  have fin: "finite (set a \<union> set b)"
    by simp
  have ne: "set a \<union> set b \<noteq> {}"
    using assms by auto
  have pos: "0 < card (set a \<union> set b)"
    using fin ne by (simp add: card_gt_0_iff)
  have le: "card (set a \<inter> set b) \<le> card (set a \<union> set b)"
    by (rule card_mono [OF fin]) auto
  show ?thesis
    using pos le assms by (simp add: jaccardSimilarity_card)
qed

text \<open>
  The loop of \<open>cosineSimilarity\<close> computes three sums over the keys of the two vectors.
\<close>

lemma fold_cosine_step:
  "fold (cosine_step v1 v2) ks (d, n1, n2) =
     (d + (\<Sum>k\<leftarrow>ks. get_or_zero v1 k * get_or_zero v2 k),
      n1 + (\<Sum>k\<leftarrow>ks. get_or_zero v1 k * get_or_zero v1 k),
      n2 + (\<Sum>k\<leftarrow>ks. get_or_zero v2 k * get_or_zero v2 k))"
  by (induction ks arbitrary: d n1 n2) (simp_all add: cosine_step_def Let_def algebra_simps)

lemma cosineSimilarity_sums:
  "cosineSimilarity v1 v2 =
     (let K = set (object_keys v1) \<union> set (object_keys v2);
          d = (\<Sum>k\<in>K. get_or_zero v1 k * get_or_zero v2 k);
          n1 = (\<Sum>k\<in>K. get_or_zero v1 k * get_or_zero v1 k);
          n2 = (\<Sum>k\<in>K. get_or_zero v2 k * get_or_zero v2 k)
      in if n1 = 0 \<or> n2 = 0 then 0 else d / (sqrt n1 * sqrt n2))"
  by (simp add: cosineSimilarity_def fold_cosine_step Let_def
      sum_list_distinct_conv_sum_set distinct_new_Set set_new_Set)

lemma cosineSimilarity_commute: "cosineSimilarity v1 v2 = cosineSimilarity v2 v1"
  by (auto simp add: cosineSimilarity_sums Let_def mult.commute Un_commute)

text \<open>
  The Cauchy-Schwarz inequality for finite sums, and with it the bounds of
  \<open>cosineSimilarity\<close> on vectors without negative weights, such as term frequencies.
\<close>

lemma cross_term_bound:
  fixes a b D A B :: real
  assumes "D\<^sup>2 \<le> A * B" and "0 \<le> A" and "0 \<le> B"
  shows "2 * (a * b) * D \<le> a * a * B + b * b * A"
proof -
  have "sqrt (D\<^sup>2) \<le> sqrt (A * B)"
    using assms(1) by (rule real_sqrt_le_mono)
  then have D: "\<bar>D\<bar> \<le> sqrt A * sqrt B"
    by (simp add: real_sqrt_mult)
  have "0 \<le> (\<bar>a\<bar> * sqrt B - \<bar>b\<bar> * sqrt A)\<^sup>2"
    by simp
  also have "\<dots> = a * a * (sqrt B * sqrt B) + b * b * (sqrt A * sqrt A)
      - 2 * (\<bar>a\<bar> * \<bar>b\<bar>) * (sqrt A * sqrt B)"
    by (simp add: power2_eq_square algebra_simps)
  finally have "2 * (\<bar>a\<bar> * \<bar>b\<bar>) * (sqrt A * sqrt B) \<le> a * a * B + b * b * A"
    using assms(2,3) by simp
  moreover have "2 * (\<bar>a\<bar> * \<bar>b\<bar>) * \<bar>D\<bar> \<le> 2 * (\<bar>a\<bar> * \<bar>b\<bar>) * (sqrt A * sqrt B)"
    using D by (intro mult_left_mono) simp_all
  moreover have "2 * (a * b) * D \<le> \<bar>2 * (a * b) * D\<bar>"
    by (rule abs_ge_self)
  moreover have "\<bar>2 * (a * b) * D\<bar> = 2 * (\<bar>a\<bar> * \<bar>b\<bar>) * \<bar>D\<bar>"
    by (simp add: abs_mult)
  ultimately show ?thesis
    by linarith
qed

lemma sum_products_squared:
  fixes f g :: "'a \<Rightarrow> real"
  assumes "finite K"
  shows "(\<Sum>k\<in>K. f k * g k)\<^sup>2 \<le> (\<Sum>k\<in>K. f k * f k) * (\<Sum>k\<in>K. g k * g k)"
  using assms
proof (induction K)
  case empty
  then show ?case by simp
next
  case (insert x K)
  let ?D = "\<Sum>k\<in>K. f k * g k" and ?A = "\<Sum>k\<in>K. f k * f k" and ?B = "\<Sum>k\<in>K. g k * g k"
  have A: "0 \<le> ?A" and B: "0 \<le> ?B"
    by (simp_all add: sum_nonneg)
  have "(f x * g x + ?D)\<^sup>2 = (f x * g x)\<^sup>2 + 2 * (f x * g x) * ?D + ?D\<^sup>2"
    by (simp add: power2_sum)
  also have "\<dots> \<le> (f x * g x)\<^sup>2 + (f x * f x * ?B + g x * g x * ?A) + ?A * ?B"
    using cross_term_bound [OF insert.IH A B, of "f x" "g x"] insert.IH by linarith
  also have "\<dots> = (f x * f x + ?A) * (g x * g x + ?B)"
    by (simp add: power2_eq_square algebra_simps)
  finally show ?case
    using insert.hyps by simp
qed


lemma get_or_zero_nonneg:
  assumes "\<forall>e\<in>set v. 0 \<le> snd e"
  shows "0 \<le> get_or_zero v k"
proof (cases "map_of v k")
  case None
  then show ?thesis by (simp add: get_or_zero_def)
next
  case (Some x)
  then have "(k, x) \<in> set v"
    by (rule map_of_SomeD)
  then show ?thesis
    using assms Some by (auto simp: get_or_zero_def)
qed

lemma cosineSimilarity_bounds:
  assumes "\<forall>e\<in>set v1. 0 \<le> snd e" and "\<forall>e\<in>set v2. 0 \<le> snd e"
  shows "0 \<le> cosineSimilarity v1 v2" and "cosineSimilarity v1 v2 \<le> 1"
proof -
  let ?K = "set (object_keys v1) \<union> set (object_keys v2)"
  let ?d = "\<Sum>k\<in>?K. get_or_zero v1 k * get_or_zero v2 k"
  let ?n1 = "\<Sum>k\<in>?K. get_or_zero v1 k * get_or_zero v1 k"
  let ?n2 = "\<Sum>k\<in>?K. get_or_zero v2 k * get_or_zero v2 k"
  have d: "0 \<le> ?d"
    by (intro sum_nonneg mult_nonneg_nonneg get_or_zero_nonneg assms)
  have n1: "0 \<le> ?n1" and n2: "0 \<le> ?n2"
    by (simp_all add: sum_nonneg)
  have "?d\<^sup>2 \<le> ?n1 * ?n2"
    by (rule sum_products_squared) simp
  then have "sqrt (?d\<^sup>2) \<le> sqrt (?n1 * ?n2)"
    by (rule real_sqrt_le_mono)
  then have le: "?d \<le> sqrt ?n1 * sqrt ?n2"
    using d by (simp add: real_sqrt_mult)
  show "0 \<le> cosineSimilarity v1 v2"
    using d n1 n2 by (simp add: cosineSimilarity_sums Let_def)
  show "cosineSimilarity v1 v2 \<le> 1"
  proof (cases "?n1 = 0 \<or> ?n2 = 0")
    case True
    then show ?thesis
      by (auto simp add: cosineSimilarity_sums Let_def)
  next
    case False
    then have "0 < sqrt ?n1 * sqrt ?n2"
      using n1 n2 by (simp add: less_le)
    then have "?d / (sqrt ?n1 * sqrt ?n2) \<le> 1"
      using le by simp
    then show ?thesis
      using False by (simp add: cosineSimilarity_sums Let_def)
  qed
qed

lemma set_update_subset: "set (AList.update k v al) \<subseteq> insert (k, v) (set al)"
  by (induction al) auto

lemma termFrequency_nonneg_aux:
  assumes "\<forall>e\<in>set freq. 0 \<le> snd e"
  shows "\<forall>e\<in>set (fold (\<lambda>token freq. AList.update token (get_or_zero freq token + 1) freq)
                      toks freq). 0 \<le> snd e"
  using assms
proof (induction toks arbitrary: freq)
  case Nil
  then show ?case by simp
next
  case (Cons t toks)
  have "0 \<le> get_or_zero freq t + 1"
    using get_or_zero_nonneg [OF Cons.prems, of t] by simp
  then have "\<forall>e\<in>set (AList.update t (get_or_zero freq t + 1) freq). 0 \<le> snd e"
    using Cons.prems set_update_subset [of t "get_or_zero freq t + 1" freq] by auto
  from Cons.IH [OF this] show ?case
    by simp
qed

lemma termFrequency_nonneg: "\<forall>e\<in>set (termFrequency toks). 0 \<le> snd e"
  unfolding termFrequency_def by (rule termFrequency_nonneg_aux) simp

text \<open>
  Claim C2. \<open>jaccardSimilarity\<close> of two empty sets is said to be \<open>0\<close>. The function has no
  guard for the empty union: it divides \<open>0\<close> by \<open>0\<close> and returns \<open>NaN\<close>.
\<close>

theorem jaccardSimilarity_empty_empty: "jaccardSimilarity [] [] = NaN"
  by (simp add: jaccardSimilarity_def new_Set_def)

section \<open>Properties of the question classifier\<close>

lemma test_list_ex: "test_list rs s = list_ex (\<lambda>r. regex_test r s) rs"
  by (induction rs) simp_all

lemma analyzeQuestion_first_match: "analyzeQuestion q = first_matching_category q"
  unfolding analyzeQuestion_def first_matching_category_def category_matches_def patterns_def
  by (simp add: test_list_ex del: regex_test.simps)

lemma analyzeQuestion_what_is_RWA:
  "analyzeQuestion [20160, 40636, 26159, 32, 82, 87, 65, 65311] = ''definition''"
  by (simp add: analyzeQuestion_def patterns_def toLowerCase_def lower_unit_def
      canonicalize_def)

lemma analyzeQuestion_which_stablecoins:
  "analyzeQuestion [26377, 21738, 20123, 31337, 23450, 24163, 65311] = ''listing''"
  by (simp add: analyzeQuestion_def patterns_def toLowerCase_def lower_unit_def
      canonicalize_def str_def is_lower_letter_def is_line_terminator_def)

lemma analyzeQuestion_why_tokenization:
  "analyzeQuestion [28858, 20160, 40636, 20195, 24163, 21270, 37325, 35201, 65311] = ''reason''"
  by (simp add: analyzeQuestion_def patterns_def toLowerCase_def lower_unit_def
      canonicalize_def str_def is_lower_letter_def is_line_terminator_def)

text \<open>
  Claim C8. \<open>analyzeQuestion\<close> answers with the first category, in the order
  \<open>definition\<close>, \<open>comparison\<close>, \<open>listing\<close>, \<open>reason\<close>, \<open>summary\<close>, \<open>trend\<close>, \<open>opinion\<close>, one of
  whose patterns matches the lower-cased question, and with \<open>general\<close> when none does. The
  three questions of the scenario, given by their code units, are classified as
  \<open>definition\<close>, \<open>listing\<close> and \<open>reason\<close>.
\<close>

theorem analyzeQuestion_dispatch:
  "(\<forall>q. analyzeQuestion q = first_matching_category q) \<and>
   analyzeQuestion [20160, 40636, 26159, 32, 82, 87, 65, 65311] = ''definition'' \<and>
   analyzeQuestion [26377, 21738, 20123, 31337, 23450, 24163, 65311] = ''listing'' \<and>
   analyzeQuestion [28858, 20160, 40636, 20195, 24163, 21270, 37325, 35201, 65311] = ''reason''"
  using analyzeQuestion_first_match analyzeQuestion_what_is_RWA
    analyzeQuestion_which_stablecoins analyzeQuestion_why_tokenization
  by blast

section \<open>Properties of the trend analyzer\<close>

lemma buildTimeline_with_tag_keeps_array:
  "t \<noteq> [] \<Longrightarrow> snd (buildTimeline arts (Some t)) = arts"
  by (simp add: buildTimeline_def)

lemma buildTimeline_permutes_array: "mset (snd (buildTimeline arts tag)) = mset arts"
  by (simp add: buildTimeline_def sort_by_savedAt_def split: option.splits)

lemma sortByDate_keeps_array: "snd (sortByDate arts asc) = arts"
  by (simp add: sortByDate_def)

text \<open>
  Claim C9. \<open>buildTimeline\<close> is said to leave the stored article array unchanged for every
  tag argument, the absent tag included. Without a tag the function sorts the stored array
  itself: an array holding an article of 30 January before one of 1 October is left in the
  opposite order.
\<close>

theorem buildTimeline_without_tag_reorders_array:
  "snd (buildTimeline
          [article_with (str ''b'') (str ''later'') [] [] (Some jan_30),
           article_with (str ''a'') (str ''earlier'') [] [] (Some oct_1)] None) =
     [article_with (str ''a'') (str ''earlier'') [] [] (Some oct_1),
      article_with (str ''b'') (str ''later'') [] [] (Some jan_30)]"
  by (simp add: buildTimeline_def sort_by_savedAt_def article_with_def date_or_epoch_def
      jan_30_def oct_1_def)

text \<open>
  Claim C4, as stated: a tag whose timeline holds exactly one article is classified \<open>new\<close>.
  It fails for an article saved two days before the analysis: the trend is \<open>rising\<close>.
\<close>

theorem single_recent_article_is_rising:
  "length (fst (buildTimeline
             [article_with (str ''a'') (str ''RWA tokenization'') [] [str ''RWA''] (Some jan_30)]
             (Some (str ''RWA'')))) = 1 \<and>
   trend (fst (analyzeTrend
             [article_with (str ''a'') (str ''RWA tokenization'') [] [str ''RWA''] (Some jan_30)]
             feb_1 (Some (str ''RWA'')))) = ''rising''"
  by (simp add: analyzeTrend_def buildTimeline_def sort_by_savedAt_def article_with_def
      matches_tag_def classify_trend_def date_after_def date_not_after_def timeline_of_def
      jan_30_def feb_1_def)

text \<open>
  Claim C4, amended. When the timeline of a tag holds exactly one article, the trend is
  \<open>rising\<close> if the article was saved within the last 30 days, \<open>declining\<close> if it was saved
  within the last 60 but not the last 30 days, and \<open>new\<close> otherwise, that is when the
  article is older than 60 days or has no date.
\<close>

theorem single_article_trend:
  assumes "length (fst (buildTimeline arts tag)) = 1"
  shows "trend (fst (analyzeTrend arts now tag)) =
     (if date_after (tl_date (hd (fst (buildTimeline arts tag)))) (now - 30 * 24 * 60 * 60 * 1000)
      then ''rising''
      else if date_after (tl_date (hd (fst (buildTimeline arts tag))))
                (now - 60 * 24 * 60 * 60 * 1000)
      then ''declining''
      else ''new'')"
proof -
  obtain timeline arts' where bt: "buildTimeline arts tag = (timeline, arts')"
    by (cases "buildTimeline arts tag")
  with assms obtain e where tl: "timeline = [e]"
    by (cases timeline) auto
  show ?thesis
    by (cases "tl_date e")
      (simp_all add: analyzeTrend_def bt tl classify_trend_def date_after_def
        date_not_after_def)
qed

theorem single_article_trend_witness:
  "length (fst (buildTimeline
             [article_with (str ''a'') (str ''RWA tokenization'') [] [str ''RWA''] (Some oct_1)]
             (Some (str ''RWA'')))) = 1 \<and>
   trend (fst (analyzeTrend
             [article_with (str ''a'') (str ''RWA tokenization'') [] [str ''RWA''] (Some oct_1)]
             feb_1 (Some (str ''RWA'')))) = ''new''"
proof -
  have one: "length (fst (buildTimeline
             [article_with (str ''a'') (str ''RWA tokenization'') [] [str ''RWA''] (Some oct_1)]
             (Some (str ''RWA'')))) = 1"
    by (simp add: buildTimeline_def sort_by_savedAt_def article_with_def matches_tag_def)
  show ?thesis
    using one single_article_trend [OF one, of feb_1]
    by (simp add: buildTimeline_def sort_by_savedAt_def article_with_def matches_tag_def
        timeline_of_def date_after_def oct_1_def feb_1_def)
qed

section \<open>Properties of the vectorizer\<close>

text \<open>
  Claim C7. \<open>fit\<close> raises exactly when the vectorizer holds no document; with at least one
  document it returns a fitted vectorizer.
\<close>

theorem fit_raises_iff_no_documents:
  "(fit vz = Inl (Error no_documents_message)) = (documents vz = []) \<and>
   (\<exists>e. fit vz = Inl e) = (documents vz = []) \<and>
   (\<exists>vz'. fit vz = Inr vz' \<and> fitted vz') = (documents vz \<noteq> [])"
  by (simp add: fit_def Let_def)

lemma hello_tokens:
  "pp_all (preprocess (str ''hello world'')) = [str ''hello'', str ''world'', str ''helloworld'']"
  by (simp add: preprocess_def tokenize_def toLowerCase_def lower_unit_def str_def
      tokenize_step_def isChinese_def is_lower_letter_def is_digit_def removeStopwords_def
      ENGLISH_STOPWORDS_def extractNgrams_def Let_def)

lemma hello_documents:
  "documents hello_vectorizer =
     [\<lparr> d_id = str ''doc1'', d_tokens = [str ''hello'', str ''world'', str ''helloworld''],
        d_text = str ''hello world'', d_metadata = no_metadata,
        termFreq = [(str ''hello'', 1), (str ''world'', 1), (str ''helloworld'', 1)] \<rparr>]"
  using hello_tokens
  by (simp add: hello_vectorizer_def addDocument_def new_vectorizer_def Let_def
      termFrequency_def get_or_zero_def str_def)

lemma hello_document_frequency:
  "document_frequency (documents hello_vectorizer) =
     [(str ''hello'', 1), (str ''world'', 1), (str ''helloworld'', 1)]"
  by (simp add: hello_documents document_frequency_def count_document_def new_Set_def
      set_add_def get_or_zero_def str_def)

lemma hello_entries:
  "object_entries [(str ''hello'', x), (str ''world'', y), (str ''helloworld'', z)] =
     [(str ''hello'', x), (str ''world'', y), (str ''helloworld'', z)]"
  by (simp add: object_entries_def is_array_index_def is_digit_def str_def)

lemma hello_vocabulary_first:
  "vocabulary (calculateIDF hello_vectorizer) =
     [(str ''hello'', 0), (str ''world'', 1), (str ''helloworld'', 2)]"
proof -
  have "vocabulary hello_vectorizer = []"
    by (simp add: hello_vectorizer_def addDocument_def new_vectorizer_def Let_def)
  then show ?thesis
    unfolding calculateIDF_def hello_document_frequency hello_entries
    by (simp add: idf_step_def length_object_keys str_def)
qed

lemma hello_vocabulary_second:
  assumes "documents vz = documents hello_vectorizer"
    and "vocabulary vz = [(str ''hello'', 0), (str ''world'', 1), (str ''helloworld'', 2)]"
  shows "vocabulary (calculateIDF vz) =
     [(str ''hello'', 3), (str ''world'', 3), (str ''helloworld'', 3)]"
  using assms(2)
  unfolding calculateIDF_def assms(1) hello_document_frequency hello_entries
  by (simp add: idf_step_def length_object_keys str_def)

lemma documents_calculateIDF_aux:
  "documents (fold (idf_step n) es vz) = documents vz"
  by (induction es arbitrary: vz) (simp_all add: idf_step_def split: prod.splits)

lemma documents_calculateIDF: "documents (calculateIDF vz) = documents vz"
  by (simp add: calculateIDF_def documents_calculateIDF_aux)

lemma fit_documents: "fit vz = Inr vz' \<Longrightarrow> documents vz' = documents vz"
  by (auto simp: fit_def Let_def documents_calculateIDF split: if_splits)

lemma fit_vocabulary: "fit vz = Inr vz' \<Longrightarrow> vocabulary vz' = vocabulary (calculateIDF vz)"
  by (auto simp: fit_def Let_def split: if_splits)

lemma fit_fitted: "fit vz = Inr vz' \<Longrightarrow> fitted vz'"
  by (auto simp: fit_def Let_def split: if_splits)

text \<open>
  What a second \<open>fit\<close> keeps: the documents, the IDF table, the vectors and with them every
  ranking, and the keys of the vocabulary. What it changes: every term of the corpus gets
  the size of the vocabulary as its index.
\<close>

lemma mset_object_entries: "mset (object_entries ob) = mset ob"
  by (simp add: object_entries_def)

lemma distinct_object_entries:
  assumes "distinct (map fst ob)"
  shows "distinct (map fst (object_entries ob))"
proof -
  have "mset (map fst (object_entries ob)) = mset (map fst ob)"
    by (simp add: mset_object_entries)
  then show ?thesis
    using assms mset_eq_imp_distinct_iff by blast
qed

lemma distinct_count_document:
  assumes "distinct (map fst df)"
  shows "distinct (map fst (count_document doc df))"
proof -
  have "distinct (map fst (fold (\<lambda>term df. AList.update term (get_or_zero df term + 1) df) ts df))" for ts
    using assms by (induction ts arbitrary: df) (simp_all add: distinct_update)
  then show ?thesis
    by (simp add: count_document_def)
qed

lemma distinct_document_frequency_aux:
  "distinct (map fst df) \<Longrightarrow> distinct (map fst (fold count_document docs df))"
  by (induction docs arbitrary: df) (simp_all add: distinct_count_document)

lemma distinct_document_frequency: "distinct (map fst (document_frequency docs))"
  by (simp add: document_frequency_def distinct_document_frequency_aux)

text \<open>Writing a list of entries with distinct keys into a table.\<close>

lemma fold_update_other:
  assumes "k \<notin> fst ` set es"
  shows "map_of (fold (\<lambda>e tbl. AList.update (fst e) (h (snd e)) tbl) es tbl) k = map_of tbl k"
  using assms by (induction es arbitrary: tbl) (auto simp: update_conv')

lemma fold_update_written:
  assumes "distinct (map fst es)" and "(k, v) \<in> set es"
  shows "map_of (fold (\<lambda>e tbl. AList.update (fst e) (h (snd e)) tbl) es tbl) k = Some (h v)"
  using assms
proof (induction es arbitrary: tbl)
  case Nil
  then show ?case by simp
next
  case (Cons e es)
  show ?case
  proof (cases "e = (k, v)")
    case True
    then have "k \<notin> fst ` set es"
      using Cons.prems(1) by auto
    then show ?thesis
      using True by (simp add: fold_update_other update_conv')
  next
    case False
    then have "(k, v) \<in> set es"
      using Cons.prems(2) by auto
    moreover have "distinct (map fst es)"
      using Cons.prems(1) by simp
    ultimately show ?thesis
      using Cons.IH by simp
  qed
qed

lemma fold_update_again:
  assumes "\<forall>e\<in>set es. map_of tbl (fst e) = Some (h (snd e))"
  shows "fold (\<lambda>e tbl. AList.update (fst e) (h (snd e)) tbl) es tbl = tbl"
  using assms by (induction es) (simp_all add: update_triv)

lemma idf_fold:
  "idf (fold (idf_step n) es vz) =
     fold (\<lambda>e tbl. AList.update (fst e) (ln ((real n + 1) / (snd e + 1)) + 1) tbl) es (idf vz)"
  by (induction es arbitrary: vz) (simp_all add: idf_step_def split: prod.splits)

lemma idf_calculateIDF_again:
  assumes "documents vz1 = documents vz" and "idf vz1 = idf (calculateIDF vz)"
  shows "idf (calculateIDF vz1) = idf vz1"
proof -
  let ?es = "object_entries (document_frequency (documents vz))"
  let ?h = "\<lambda>f. ln ((real (length (documents vz)) + 1) / (f + 1)) + 1"
  have d: "distinct (map fst ?es)"
    by (simp add: distinct_object_entries distinct_document_frequency)
  have w: "\<forall>e\<in>set ?es. map_of (idf vz1) (fst e) = Some (?h (snd e))"
  proof
    fix e assume "e \<in> set ?es"
    then have "(fst e, snd e) \<in> set ?es" by simp
    then show "map_of (idf vz1) (fst e) = Some (?h (snd e))"
      unfolding assms(2) calculateIDF_def idf_fold
      using fold_update_written [OF d, of "fst e" "snd e" ?h "idf vz"] by simp
  qed
  show ?thesis
    unfolding calculateIDF_def idf_fold assms(1)
    using fold_update_again [OF w] by simp
qed


lemma vocabulary_keys_fold:
  "map fst (vocabulary (fold (idf_step n) es vz)) =
     fold (\<lambda>e ks. if fst e \<in> set ks then ks else ks @ [fst e]) es (map fst (vocabulary vz))"
  by (induction es arbitrary: vz) (simp_all add: idf_step_def update_keys split: prod.splits)

lemma keys_fold_set:
  "set (fold (\<lambda>e ks. if fst e \<in> set ks then ks else ks @ [fst e]) es ks) =
     set ks \<union> fst ` set es"
  by (induction es arbitrary: ks) auto

lemma keys_fold_again:
  "fst ` set es \<subseteq> set ks \<Longrightarrow>
     fold (\<lambda>e ks. if fst e \<in> set ks then ks else ks @ [fst e]) es ks = ks"
  by (induction es) auto

lemma vocabulary_keys_calculateIDF_again:
  assumes "documents vz1 = documents vz" and "vocabulary vz1 = vocabulary (calculateIDF vz)"
  shows "map fst (vocabulary (calculateIDF vz1)) = map fst (vocabulary vz1)"
proof -
  let ?es = "object_entries (document_frequency (documents vz))"
  have "fst ` set ?es \<subseteq> set (map fst (vocabulary vz1))"
    unfolding assms(2) calculateIDF_def vocabulary_keys_fold
    by (simp add: keys_fold_set)
  then show ?thesis
    unfolding calculateIDF_def vocabulary_keys_fold assms(1)
    by (rule keys_fold_again)
qed

lemma fit_idf: "fit vz = Inr vz' \<Longrightarrow> idf vz' = idf (calculateIDF vz)"
  by (auto simp: fit_def Let_def split: if_splits)

lemma fit_vectors:
  "fit vz = Inr vz' \<Longrightarrow>
     vectors vz' = map (\<lambda>doc. \<lparr> v_id = d_id doc, vector = vectorize (idf vz') (termFreq doc),
                                  v_metadata = d_metadata doc \<rparr>) (documents vz')"
  by (auto simp: fit_def Let_def split: if_splits)

lemma refit_keeps_idf_and_ranking:
  assumes "fit vz = Inr vz1" and "fit vz1 = Inr vz2"
  shows "documents vz2 = documents vz1" and "idf vz2 = idf vz1" and "vectors vz2 = vectors vz1"
    and "fitted vz2 = fitted vz1" and "rank vz2 q k = rank vz1 q k"
    and "map fst (vocabulary vz2) = map fst (vocabulary vz1)"
proof -
  have d1: "documents vz1 = documents vz"
    using assms(1) by (rule fit_documents)
  show d2: "documents vz2 = documents vz1"
    using assms(2) by (rule fit_documents)
  show i2: "idf vz2 = idf vz1"
    using fit_idf [OF assms(2)] idf_calculateIDF_again [OF d1 fit_idf [OF assms(1)]] by simp
  show v2: "vectors vz2 = vectors vz1"
    using fit_vectors [OF assms(1)] fit_vectors [OF assms(2)] d2 i2 by simp
  show "fitted vz2 = fitted vz1"
    using fit_fitted [OF assms(1)] fit_fitted [OF assms(2)] by simp
  show "rank vz2 q k = rank vz1 q k"
    by (simp add: rank_def transformQuery_def i2 v2)
  show "map fst (vocabulary vz2) = map fst (vocabulary vz1)"
    using fit_vocabulary [OF assms(2)]
      vocabulary_keys_calculateIDF_again [OF d1 fit_vocabulary [OF assms(1)]] by simp
qed


lemma fold_update_const:
  "map_of (fold (\<lambda>e tbl. AList.update (fst e) c tbl) es tbl) k =
     (if k \<in> fst ` set es then Some c else map_of tbl k)"
  by (induction es arbitrary: tbl) (auto simp: update_conv')

lemma vocabulary_fold_present:
  assumes "fst ` set es \<subseteq> fst ` set (vocabulary vz)"
  shows "vocabulary (fold (idf_step n) es vz) =
     fold (\<lambda>e tbl. AList.update (fst e) (length (vocabulary vz)) tbl) es (vocabulary vz)"
  using assms
proof (induction es arbitrary: vz)
  case Nil
  then show ?case by simp
next
  case (Cons e es)
  let ?vz' = "idf_step n e vz"
  have "fst e \<in> fst ` set (vocabulary vz)"
    using Cons.prems by simp
  then have keys: "map fst (vocabulary ?vz') = map fst (vocabulary vz)"
    by (cases e) (simp add: idf_step_def update_keys)
  then have len: "length (vocabulary ?vz') = length (vocabulary vz)"
    using length_map by metis
  have "fst ` set es \<subseteq> fst ` set (vocabulary ?vz')"
    using Cons.prems keys by (metis list.set_map set_subset_Cons image_mono subset_trans)
  from Cons.IH [OF this] show ?case
    by (simp add: len) (simp add: idf_step_def length_object_keys split: prod.splits)
qed

lemma refit_indices:
  assumes "fit vz = Inr vz1" and "fit vz1 = Inr vz2"
    and "t \<in> fst ` set (document_frequency (documents vz))"
  shows "map_of (vocabulary vz2) t = Some (length (vocabulary vz1))"
proof -
  let ?es = "object_entries (document_frequency (documents vz))"
  have d1: "documents vz1 = documents vz"
    using assms(1) by (rule fit_documents)
  have "set ?es = set (document_frequency (documents vz))"
    using mset_object_entries [of "document_frequency (documents vz)"] by (metis set_mset_mset)
  then have t: "t \<in> fst ` set ?es"
    using assms(3) by simp
  have "fst ` set ?es \<subseteq> set (map fst (vocabulary vz1))"
    unfolding fit_vocabulary [OF assms(1)] calculateIDF_def vocabulary_keys_fold
    by (simp add: keys_fold_set)
  then have sub: "fst ` set ?es \<subseteq> fst ` set (vocabulary vz1)"
    by simp
  show ?thesis
    unfolding fit_vocabulary [OF assms(2)] calculateIDF_def d1
      vocabulary_fold_present [OF sub]
    using t by (simp add: fold_update_const)
qed

text \<open>
  Claim C1. Fitting a second time, with no document added or removed, is said to give the
  same vocabulary. \<open>calculateIDF\<close> does not empty the vocabulary it fills, and the index it
  assigns is the number of keys already there: for the single document \<open>hello world\<close> the
  first \<open>fit\<close> numbers the three terms 0, 1 and 2, the second gives each of them the index 3.
\<close>

theorem refit_changes_vocabulary:
  "\<exists>vz1 vz2.
     fit hello_vectorizer = Inr vz1 \<and> fit vz1 = Inr vz2 \<and>
     documents vz1 = documents hello_vectorizer \<and>
     documents vz2 = documents hello_vectorizer \<and>
     vocabulary vz1 = [(str ''hello'', 0), (str ''world'', 1), (str ''helloworld'', 2)] \<and>
     vocabulary vz2 = [(str ''hello'', 3), (str ''world'', 3), (str ''helloworld'', 3)]"
proof -
  have ne: "documents hello_vectorizer \<noteq> []"
    by (simp add: hello_documents)
  then obtain vz1 where f1: "fit hello_vectorizer = Inr vz1"
    by (auto simp: fit_def Let_def)
  have d1: "documents vz1 = documents hello_vectorizer"
    using f1 by (rule fit_documents)
  have v1: "vocabulary vz1 = [(str ''hello'', 0), (str ''world'', 1), (str ''helloworld'', 2)]"
    using fit_vocabulary [OF f1] hello_vocabulary_first by simp
  from d1 ne obtain vz2 where f2: "fit vz1 = Inr vz2"
    by (auto simp: fit_def Let_def)
  have d2: "documents vz2 = documents hello_vectorizer"
    using fit_documents [OF f2] d1 by simp
  have v2: "vocabulary vz2 = [(str ''hello'', 3), (str ''world'', 3), (str ''helloworld'', 3)]"
    using fit_vocabulary [OF f2] hello_vocabulary_second [OF d1 v1] by simp
  from f1 f2 d1 d2 v1 v2 show ?thesis by blast
qed

section \<open>Properties of connection discovery\<close>

lemma question_mark_tokens: "pp_tokens (preprocess (str ''?'')) = []"
  by (simp add: preprocess_def tokenize_def toLowerCase_def lower_unit_def str_def
      tokenize_step_def isChinese_def is_lower_letter_def is_digit_def removeStopwords_def
      Let_def)

text \<open>
  Claim C3. The total score of \<open>calculateRelation\<close> is said to lie between 0 and 1, and so
  is every result of \<open>jaccardSimilarity\<close>. Two articles whose key points are both the text
  \<open>?\<close> have key points that are not empty and contain no token: the key-point similarity is
  \<open>jaccardSimilarity\<close> of two empty sets, which is \<open>NaN\<close>, and so is the total score; no
  comparison with a bound holds for it.
\<close>

theorem calculateRelation_totalScore_NaN:
  "totalScore (calculateRelation
      (article_with (str ''a'') (str ''RWA'') [str ''?''] [] None)
      (article_with (str ''b'') (str ''DeFi'') [str ''?''] [] None)) = NaN \<and>
   \<not> js_ge (totalScore (calculateRelation
      (article_with (str ''a'') (str ''RWA'') [str ''?''] [] None)
      (article_with (str ''b'') (str ''DeFi'') [str ''?''] [] None))) 0 \<and>
   \<not> js_le (totalScore (calculateRelation
      (article_with (str ''a'') (str ''RWA'') [str ''?''] [] None)
      (article_with (str ''b'') (str ''DeFi'') [str ''?''] [] None))) 1"
proof -
  have "totalScore (calculateRelation
      (article_with (str ''a'') (str ''RWA'') [str ''?''] [] None)
      (article_with (str ''b'') (str ''DeFi'') [str ''?''] [] None)) = NaN"
    unfolding calculateRelation_def Let_def
    by (simp add: article_with_def question_mark_tokens js_add_NaN jaccardSimilarity_card
        new_Set_def str_eq_Nil del: js_add.simps)
  then show ?thesis
    by simp
qed

text \<open>
  Apart from that case the bounds hold: the tag overlap and the topic similarity lie
  between 0 and 1, the key-point similarity is \<open>NaN\<close> or lies between 0 and 1, and so does
  the total score.
\<close>

lemma tagOverlap_bounds:
  "0 \<le> tagOverlap (calculateRelation a b) \<and> tagOverlap (calculateRelation a b) \<le> 1"
proof -
  let ?n = "length (filter (\<lambda>t. t \<in> set (new_Set (tags b))) (new_Set (tags a)))"
  let ?m = "max (max (length (new_Set (tags a))) (length (new_Set (tags b)))) 1"
  have "?n \<le> length (new_Set (tags a))"
    by (rule length_filter_le)
  then have "?n \<le> ?m"
    by arith
  then have "real ?n \<le> real ?m"
    by (rule of_nat_mono)
  moreover have "0 < real ?m"
    by simp
  ultimately have "real ?n / real ?m \<le> 1"
    by (simp only: divide_le_eq_1_pos)
  then show ?thesis
    by (simp add: calculateRelation_def Let_def)
qed

lemma topicSimilarity_bounds:
  "0 \<le> topicSimilarity (calculateRelation a b) \<and> topicSimilarity (calculateRelation a b) \<le> 1"
  using cosineSimilarity_bounds [OF termFrequency_nonneg termFrequency_nonneg]
  by (simp add: calculateRelation_def Let_def)

lemma keyPointSimilarity_cases:
  "keyPointSimilarity (calculateRelation a b) = NaN \<or>
   (\<exists>r. keyPointSimilarity (calculateRelation a b) = Num r \<and> 0 \<le> r \<and> r \<le> 1)"
proof -
  let ?k1 = "new_Set (pp_tokens (preprocess (join (str '' '') (keyPoints a))))"
  let ?k2 = "new_Set (pp_tokens (preprocess (join (str '' '') (keyPoints b))))"
  have "jaccardSimilarity ?k1 ?k2 = NaN \<or>
      (\<exists>r. jaccardSimilarity ?k1 ?k2 = Num r \<and> 0 \<le> r \<and> r \<le> 1)"
  proof (cases "?k1 = [] \<and> ?k2 = []")
    case True
    then show ?thesis
      by (simp add: jaccardSimilarity_card)
  next
    case False
    then show ?thesis
      using jaccardSimilarity_bounds [of ?k1 ?k2] by blast
  qed
  then show ?thesis
    by (auto simp add: calculateRelation_def Let_def)
qed

lemma totalScore_components:
  "totalScore (calculateRelation a b) =
     js_add (Num (tagOverlap (calculateRelation a b) * 0.4 +
                  topicSimilarity (calculateRelation a b) * 0.4))
            (js_mul (keyPointSimilarity (calculateRelation a b)) (Num 0.2))"
  by (simp add: calculateRelation_def Let_def)

lemma totalScore_cases:
  "totalScore (calculateRelation a b) = NaN \<or>
   (\<exists>r. totalScore (calculateRelation a b) = Num r \<and> 0 \<le> r \<and> r \<le> 1)"
proof -
  let ?t = "tagOverlap (calculateRelation a b)"
  let ?c = "topicSimilarity (calculateRelation a b)"
  from keyPointSimilarity_cases [of a b] show ?thesis
  proof
    assume "keyPointSimilarity (calculateRelation a b) = NaN"
    then show ?thesis
      by (simp add: totalScore_components)
  next
    assume "\<exists>r. keyPointSimilarity (calculateRelation a b) = Num r \<and> 0 \<le> r \<and> r \<le> 1"
    then obtain r where r: "keyPointSimilarity (calculateRelation a b) = Num r" "0 \<le> r" "r \<le> 1"
      by blast
    have "totalScore (calculateRelation a b) = Num (?t * 0.4 + ?c * 0.4 + r * 0.2)"
      by (simp add: totalScore_components r(1))
    moreover have "0 \<le> ?t * 0.4 + ?c * 0.4 + r * 0.2" "?t * 0.4 + ?c * 0.4 + r * 0.2 \<le> 1"
      using tagOverlap_bounds [of a b] topicSimilarity_bounds [of a b] r(2,3) by simp_all
    ultimately show ?thesis
      by blast
  qed
qed

lemma shared_tags_card:
  "length (filter (\<lambda>t. t \<in> set (new_Set ys)) (new_Set xs)) = card (set xs \<inter> set ys)"
proof -
  have "{x. x \<in> set ys} \<inter> set xs = set xs \<inter> set ys"
    by auto
  then show ?thesis
    by (simp add: distinct_length_filter distinct_new_Set set_new_Set)
qed

lemma totalScore_commute:
  "totalScore (calculateRelation a b) = totalScore (calculateRelation b a)"
proof -
  have shared: "length (filter (\<lambda>t. t \<in> set (new_Set (tags b))) (new_Set (tags a))) =
      length (filter (\<lambda>t. t \<in> set (new_Set (tags a))) (new_Set (tags b)))"
    by (simp only: shared_tags_card Int_commute)
  show ?thesis
    unfolding calculateRelation_def Let_def
    by (simp add: shared max.commute conj_commute
        cosineSimilarity_commute
          [of "termFrequency (pp_tokens (preprocess (relation_content a)))"]
        jaccardSimilarity_commute
          [of "new_Set (pp_tokens (preprocess (join (str '' '') (keyPoints a))))"]
        del: js_mul.simps js_add.simps)
qed

lemma sharedTags_mset_commute:
  "mset (sharedTags (calculateRelation a b)) = mset (sharedTags (calculateRelation b a))"
proof -
  have "distinct (sharedTags (calculateRelation a b))"
    and "distinct (sharedTags (calculateRelation b a))"
    by (simp_all add: calculateRelation_def Let_def distinct_new_Set)
  moreover have "set (sharedTags (calculateRelation a b)) =
      set (sharedTags (calculateRelation b a))"
    by (auto simp add: calculateRelation_def Let_def set_new_Set)
  ultimately show ?thesis
    by (simp add: set_eq_iff_mset_eq_distinct)
qed

text \<open>
  Claim C6, as stated: \<open>calculateRelation(A, B)\<close> and \<open>calculateRelation(B, A)\<close> give the same
  \<open>sharedTags\<close>. The array lists the shared tags in the order of the tags of the first
  argument: for the tags \<open>RWA\<close>, \<open>DeFi\<close> and \<open>DeFi\<close>, \<open>RWA\<close> the two arrays differ.
\<close>

theorem sharedTags_order_differs:
  "sharedTags (calculateRelation
      (article_with (str ''a'') [] [] [str ''RWA'', str ''DeFi''] None)
      (article_with (str ''b'') [] [] [str ''DeFi'', str ''RWA''] None)) \<noteq>
   sharedTags (calculateRelation
      (article_with (str ''b'') [] [] [str ''DeFi'', str ''RWA''] None)
      (article_with (str ''a'') [] [] [str ''RWA'', str ''DeFi''] None))"
  by (simp add: calculateRelation_def Let_def article_with_def new_Set_def set_add_def str_def)

text \<open>
  Claim C6, amended. \<open>calculateRelation(A, B)\<close> and \<open>calculateRelation(B, A)\<close> give the same
  total score and the same shared tags up to their order: each shared tag occurs once in
  either array.
\<close>

theorem calculateRelation_symmetric:
  "totalScore (calculateRelation a b) = totalScore (calculateRelation b a) \<and>
   mset (sharedTags (calculateRelation a b)) = mset (sharedTags (calculateRelation b a)) \<and>
   distinct (sharedTags (calculateRelation a b))"
  using totalScore_commute [of a b] sharedTags_mset_commute [of a b]
  by (simp add: calculateRelation_def Let_def distinct_new_Set)

section \<open>Properties of semantic search\<close>

lemma indexArticles_fitted: "indexArticles ss0 arts = Inr ss \<Longrightarrow> fitted (vectorizer ss)"
  by (auto simp: indexArticles_def Let_def fit_fitted split: sum.splits)

lemma search_fitted:
  assumes "fitted (vectorizer ss)"
  shows "search ss q k m b =
     Inr (map (enhance (articles ss) q b)
            (filter (\<lambda>r. score r \<ge> m) (rank (vectorizer ss) q k)), ss)"
  using assms by (simp add: search_def vz_search_def)

lemma search_results_shape:
  assumes "search ss q k m b = Inr (rs, ss')"
  shows "\<exists>vz. rs = map (enhance (articles ss) q b)
                      (filter (\<lambda>r. score r \<ge> m) (rank vz q k))"
  using assms
  by (auto simp: search_def vz_search_def split: if_splits sum.splits)

lemma r_score_enhance: "r_score (enhance st q b r) = score r"
  by (simp add: enhance_def split: option.splits)

lemma r_id_enhance: "r_id (enhance st q b r) = s_id r"
  by (simp add: enhance_def split: option.splits)

text \<open>The ranking is in descending order of the score.\<close>

lemma rank_sorted: "sorted (map (\<lambda>s. - score s) (rank vz q k))"
  by (simp add: rank_def Let_def take_map [symmetric] sorted_wrt_take del: take_map)

lemma sorted_hd_least:
  assumes "sorted (map f xs)" and "x \<in> set xs"
  shows "f (hd xs) \<le> f x"
  using assms by (cases xs) auto

lemma search_sorted:
  assumes "search ss q k m b = Inr (rs, ss')"
  shows "sorted (map (\<lambda>r. - r_score r) rs)"
proof -
  obtain vz where rs: "rs = map (enhance (articles ss) q b)
                              (filter (\<lambda>r. score r \<ge> m) (rank vz q k))"
    using search_results_shape [OF assms] by blast
  have "map (\<lambda>r. - r_score r) rs =
      map (\<lambda>s. - score s) (filter (\<lambda>r. score r \<ge> m) (rank vz q k))"
    by (simp add: rs comp_def r_score_enhance)
  then show ?thesis
    using sorted_filter [OF rank_sorted, of "\<lambda>r. score r \<ge> m" vz q k] by simp
qed

lemma searchWithContext_gate:
  assumes "searchWithContext ss q k = Inr (ctx, ss')"
  shows "hasRelevantInfo ctx = (results ctx \<noteq> [] \<and> relevance (hd (results ctx)) > 0.15)"
    and "\<forall>c\<in>set (results ctx). relevance c \<le> relevance (hd (results ctx))"
proof -
  obtain rs where s: "search ss q k 0.1 True = Inr (rs, ss')"
    and ctx: "ctx = \<lparr> question = q, results = map context_of rs,
        hasRelevantInfo = (case rs of [] \<Rightarrow> False | r # _ \<Rightarrow> r_score r > 0.15) \<rparr>"
    using assms by (auto simp: searchWithContext_def split: sum.splits)
  show "hasRelevantInfo ctx = (results ctx \<noteq> [] \<and> relevance (hd (results ctx)) > 0.15)"
    by (cases rs) (simp_all add: ctx context_of_def)
  have "sorted (map (\<lambda>r. - r_score r) rs)"
    using search_sorted [OF s] .
  then have "sorted (map (\<lambda>c. - relevance c) (results ctx))"
    by (simp add: ctx comp_def context_of_def)
  then show "\<forall>c\<in>set (results ctx). relevance c \<le> relevance (hd (results ctx))"
    using sorted_hd_least [of "\<lambda>c. - relevance c" "results ctx"] by auto
qed

lemma searchWithContext_returns:
  assumes "fitted (vectorizer ss)"
  shows "\<exists>ctx. searchWithContext ss q k = Inr (ctx, ss)"
  by (simp add: searchWithContext_def search_fitted [OF assms])

text \<open>
  Claim C5. Whenever \<open>searchWithContext\<close> returns, \<open>hasRelevantInfo\<close> is true exactly when
  the result list is not empty and the relevance of its first entry is strictly above 0.15
  (a relevance of exactly 0.15 gives false), and no entry of the list has a higher relevance
  than the first. On an engine that \<open>indexArticles\<close> has filled, \<open>searchWithContext\<close> returns
  for every question.
\<close>

theorem searchWithContext_relevance_gate:
  "(\<forall>ctx ss'. searchWithContext ss q k = Inr (ctx, ss') \<longrightarrow>
      hasRelevantInfo ctx = (results ctx \<noteq> [] \<and> relevance (hd (results ctx)) > 0.15) \<and>
      (relevance (hd (results ctx)) = 0.15 \<longrightarrow> \<not> hasRelevantInfo ctx) \<and>
      (\<forall>c\<in>set (results ctx). relevance c \<le> relevance (hd (results ctx)))) \<and>
   (\<forall>ss0 arts. indexArticles ss0 arts = Inr ss \<longrightarrow>
      (\<exists>ctx ss'. searchWithContext ss q k = Inr (ctx, ss')))"
proof (intro conjI allI impI)
  fix ctx ss'
  assume r: "searchWithContext ss q k = Inr (ctx, ss')"
  show "hasRelevantInfo ctx = (results ctx \<noteq> [] \<and> relevance (hd (results ctx)) > 0.15)"
    using searchWithContext_gate(1) [OF r] .
  show "\<forall>c\<in>set (results ctx). relevance c \<le> relevance (hd (results ctx))"
    using searchWithContext_gate(2) [OF r] .
  assume "relevance (hd (results ctx)) = 0.15"
  then show "\<not> hasRelevantInfo ctx"
    using searchWithContext_gate(1) [OF r] by simp
next
  fix ss0 arts
  assume "indexArticles ss0 arts = Inr ss"
  then have "fitted (vectorizer ss)"
    by (rule indexArticles_fitted)
  then show "\<exists>ctx ss'. searchWithContext ss q k = Inr (ctx, ss')"
    using searchWithContext_returns [of ss q k] by blast
qed

lemma rwa_preprocess:
  "preprocess (str ''RWA'') =
     \<lparr> pp_tokens = [str ''rwa''], pp_bigrams = [], pp_all = [str ''rwa''] \<rparr>"
  "preprocess (str ''RWA '') =
     \<lparr> pp_tokens = [str ''rwa''], pp_bigrams = [], pp_all = [str ''rwa''] \<rparr>"
  "preprocess (str ''RWA  '') =
     \<lparr> pp_tokens = [str ''rwa''], pp_bigrams = [], pp_all = [str ''rwa''] \<rparr>"
  by (simp_all add: preprocess_def tokenize_def toLowerCase_def lower_unit_def str_def
      tokenize_step_def isChinese_def is_lower_letter_def is_digit_def removeStopwords_def
      ENGLISH_STOPWORDS_def extractNgrams_def Let_def)

lemma rwa_searchableText:
  "searchableText rwa_article = str ''RWA  ''" "searchableText rwa_copy = str ''RWA  ''"
  by (simp_all add: searchableText_def rwa_article_def rwa_copy_def article_with_def str_def)

lemma rwa_entries: "object_entries [(str ''rwa'', x)] = [(str ''rwa'', x)]"
  by (simp add: object_entries_def is_array_index_def is_digit_def str_def)

lemma rwa_termFrequency: "termFrequency [str ''rwa''] = [(str ''rwa'', 1)]"
  by (simp add: termFrequency_def get_or_zero_def)

lemma rwa_vectorize: "vectorize [(str ''rwa'', 1)] [(str ''rwa'', 1)] = [(str ''rwa'', 1)]"
  by (simp add: vectorize_def object_values_def rwa_entries idf_truthy_def get_or_zero_def
      Let_def)

lemma rwa_cosine: "cosineSimilarity [(str ''rwa'', 1)] [(str ''rwa'', 1)] = 1"
  by (simp add: cosineSimilarity_def object_keys_def rwa_entries new_Set_def set_add_def
      cosine_step_def get_or_zero_def Let_def)

lemma rwa_indexed: "indexArticles new_search [rwa_article] = Inr rwa_index"
proof -
  have 1: "fold indexArticle [rwa_article] new_search =
      \<lparr> vectorizer = \<lparr> documents = [rwa_document (str ''a'')], vocabulary = [], idf = [],
                        vectors = [], fitted = False \<rparr>,
        articles = [(str ''a'', rwa_article)] \<rparr>"
    by (simp add: indexArticle_def new_search_def new_vectorizer_def addDocument_def
        rwa_searchableText rwa_preprocess rwa_termFrequency rwa_document_def rwa_metadata_def
        Let_def)
      (simp add: rwa_article_def article_with_def)
  have 2: "document_frequency [rwa_document (str ''a'')] = [(str ''rwa'', 1)]"
    by (simp add: document_frequency_def count_document_def rwa_document_def new_Set_def
        set_add_def get_or_zero_def)
  show ?thesis
    unfolding indexArticles_def Let_def 1
    by (simp add: fit_def calculateIDF_def 2 rwa_entries idf_step_def length_object_keys
        rwa_index_def Let_def)
      (simp add: rwa_document_def rwa_vector_def rwa_vectorize)
qed

lemma twin_indexed: "indexArticles new_search [rwa_article, rwa_copy] = Inr twin_index"
proof -
  have 1: "fold indexArticle [rwa_article, rwa_copy] new_search =
      \<lparr> vectorizer =
          \<lparr> documents = [rwa_document (str ''a''), rwa_document (str ''b'')],
            vocabulary = [], idf = [], vectors = [], fitted = False \<rparr>,
        articles = [(str ''a'', rwa_article), (str ''b'', rwa_copy)] \<rparr>"
    by (simp add: indexArticle_def new_search_def new_vectorizer_def addDocument_def
        rwa_searchableText rwa_preprocess rwa_termFrequency rwa_document_def rwa_metadata_def
        Let_def)
      (simp add: rwa_article_def rwa_copy_def article_with_def str_def)
  have 2: "document_frequency [rwa_document (str ''a''), rwa_document (str ''b'')] =
      [(str ''rwa'', 2)]"
    by (simp add: document_frequency_def count_document_def rwa_document_def new_Set_def
        set_add_def get_or_zero_def)
  show ?thesis
    unfolding indexArticles_def Let_def 1
    by (simp add: fit_def calculateIDF_def 2 rwa_entries idf_step_def length_object_keys
        twin_index_def Let_def)
      (simp add: rwa_document_def rwa_vector_def rwa_vectorize)
qed

lemma rwa_index_search:
  "\<exists>ctx. searchWithContext rwa_index (str ''RWA'') 3 = Inr (ctx, rwa_index) \<and>
     hasRelevantInfo ctx \<and> map relevance (results ctx) = [1]"
proof -
  have "rank (vectorizer rwa_index) (str ''RWA'') 3 =
      [\<lparr> s_id = str ''a'', score = 1, s_metadata = rwa_metadata \<rparr>]"
    by (simp add: rank_def transformQuery_def rwa_index_def rwa_vector_def rwa_preprocess
        rwa_termFrequency rwa_vectorize rwa_cosine Let_def)
  then show ?thesis
    by (simp add: searchWithContext_def search_def vz_search_def r_score_enhance)
      (simp add: rwa_index_def context_of_def r_score_enhance)
qed

lemma sqrt_400: "sqrt 400 = 20"
  by (rule real_sqrt_unique) simp_all

lemma boundary_cosine:
  "cosineSimilarity [(str ''rwa'', 1)]
     [(str ''rwa'', 3), (str ''defi'', 19), (str ''token'', 5), (str ''asset'', 2),
      (str ''chain'', 1)] = 0.15"
  by (simp add: cosineSimilarity_def object_keys_def object_entries_def is_array_index_def
      is_digit_def new_Set_def set_add_def cosine_step_def get_or_zero_def Let_def str_def
      sqrt_400)

lemma boundary_index_search:
  "\<exists>ctx. searchWithContext boundary_index (str ''RWA'') 3 = Inr (ctx, boundary_index) \<and>
     \<not> hasRelevantInfo ctx \<and> map relevance (results ctx) = [0.15]"
proof -
  have "rank (vectorizer boundary_index) (str ''RWA'') 3 =
      [\<lparr> s_id = str ''a'', score = 0.15, s_metadata = rwa_metadata \<rparr>]"
    by (simp add: rank_def transformQuery_def boundary_index_def rwa_preprocess
        rwa_termFrequency rwa_vectorize boundary_cosine Let_def)
  then show ?thesis
    by (simp add: searchWithContext_def search_def vz_search_def r_score_enhance)
      (simp add: boundary_index_def context_of_def r_score_enhance)
qed

theorem searchWithContext_relevance_gate_witness:
  "indexArticles new_search [rwa_article] = Inr rwa_index \<and>
   (\<exists>ctx ss'. searchWithContext rwa_index (str ''RWA'') 3 = Inr (ctx, ss') \<and>
      map relevance (results ctx) = [1] \<and> hasRelevantInfo ctx \<and>
      hasRelevantInfo ctx = (results ctx \<noteq> [] \<and> relevance (hd (results ctx)) > 0.15)) \<and>
   (\<exists>ctx ss'. searchWithContext boundary_index (str ''RWA'') 3 = Inr (ctx, ss') \<and>
      map relevance (results ctx) = [0.15] \<and> \<not> hasRelevantInfo ctx \<and>
      hasRelevantInfo ctx = (results ctx \<noteq> [] \<and> relevance (hd (results ctx)) > 0.15))"
proof -
  obtain c1 where c1: "searchWithContext rwa_index (str ''RWA'') 3 = Inr (c1, rwa_index)"
    "hasRelevantInfo c1" "map relevance (results c1) = [1]"
    using rwa_index_search by auto
  have g1: "hasRelevantInfo c1 = (results c1 \<noteq> [] \<and> relevance (hd (results c1)) > 0.15)"
    using searchWithContext_relevance_gate [of rwa_index "str ''RWA''" 3] c1(1) by auto
  obtain c2 where c2:
    "searchWithContext boundary_index (str ''RWA'') 3 = Inr (c2, boundary_index)"
    "\<not> hasRelevantInfo c2" "map relevance (results c2) = [0.15]"
    using boundary_index_search by auto
  have g2: "hasRelevantInfo c2 = (results c2 \<noteq> [] \<and> relevance (hd (results c2)) > 0.15)"
    using searchWithContext_relevance_gate [of boundary_index "str ''RWA''" 3] c2(1)
    by auto
  from c1 g1 have "\<exists>ctx ss'. searchWithContext rwa_index (str ''RWA'') 3 = Inr (ctx, ss') \<and>
      map relevance (results ctx) = [1] \<and> hasRelevantInfo ctx \<and>
      hasRelevantInfo ctx = (results ctx \<noteq> [] \<and> relevance (hd (results ctx)) > 0.15)"
    by auto
  moreover from c2 g2
  have "\<exists>ctx ss'. searchWithContext boundary_index (str ''RWA'') 3 = Inr (ctx, ss') \<and>
      map relevance (results ctx) = [0.15] \<and> \<not> hasRelevantInfo ctx \<and>
      hasRelevantInfo ctx = (results ctx \<noteq> [] \<and> relevance (hd (results ctx)) > 0.15)"
    by auto
  ultimately show ?thesis
    using rwa_indexed by auto
qed

lemma findSimilar_absent:
  assumes "map_of (articles ss) articleId = None"
  shows "findSimilar ss articleId k = Inr ([], ss)"
  using assms by (simp add: findSimilar_def)

lemma findSimilar_excludes_source:
  assumes "findSimilar ss articleId k = Inr (rs, ss')"
  shows "articleId \<notin> r_id ` set rs"
proof (cases "map_of (articles ss) articleId")
  case None
  then show ?thesis
    using assms by (simp add: findSimilar_def)
next
  case (Some a)
  then obtain found where
    "rs = take k (filter (\<lambda>r. r_id r \<noteq> articleId) found)"
    using assms by (auto simp: findSimilar_def split: sum.splits)
  then have "set rs \<subseteq> {r. r_id r \<noteq> articleId}"
    using set_take_subset [of k "filter (\<lambda>r. r_id r \<noteq> articleId) found"] by auto
  then show ?thesis
    by auto
qed

lemma findSimilar_returns:
  assumes "fitted (vectorizer ss)"
  shows "\<exists>rs. findSimilar ss articleId k = Inr (rs, ss)"
  by (cases "map_of (articles ss) articleId")
    (simp_all add: findSimilar_def search_fitted [OF assms])

text \<open>
  Claim C10. \<open>findSimilar\<close> with an id that is not in the article store returns the empty
  list and leaves the engine as it is; no list that \<open>findSimilar\<close> returns contains a result
  with the id it was called with; and on an engine that \<open>indexArticles\<close> has filled,
  \<open>findSimilar\<close> returns for every id.
\<close>

theorem findSimilar_absent_and_self:
  "(map_of (articles ss) articleId = None \<longrightarrow> findSimilar ss articleId k = Inr ([], ss)) \<and>
   (\<forall>rs ss'. findSimilar ss articleId k = Inr (rs, ss') \<longrightarrow> articleId \<notin> r_id ` set rs) \<and>
   (\<forall>ss0 arts. indexArticles ss0 arts = Inr ss \<longrightarrow>
      (\<exists>rs ss'. findSimilar ss articleId k = Inr (rs, ss')))"
proof (intro conjI allI impI)
  assume "map_of (articles ss) articleId = None"
  then show "findSimilar ss articleId k = Inr ([], ss)"
    by (rule findSimilar_absent)
next
  fix rs ss'
  assume "findSimilar ss articleId k = Inr (rs, ss')"
  then show "articleId \<notin> r_id ` set rs"
    by (rule findSimilar_excludes_source)
next
  fix ss0 arts
  assume "indexArticles ss0 arts = Inr ss"
  then have "fitted (vectorizer ss)"
    by (rule indexArticles_fitted)
  then show "\<exists>rs ss'. findSimilar ss articleId k = Inr (rs, ss')"
    using findSimilar_returns [of ss articleId k] by blast
qed

lemma twin_index_rank:
  "rank (vectorizer twin_index) (str ''RWA '') 6 =
     [\<lparr> s_id = str ''a'', score = 1, s_metadata = rwa_metadata \<rparr>,
      \<lparr> s_id = str ''b'', score = 1, s_metadata = rwa_metadata \<rparr>]"
  by (simp add: rank_def transformQuery_def twin_index_def rwa_vector_def rwa_preprocess
      rwa_termFrequency rwa_vectorize rwa_cosine Let_def)

lemma twin_index_findSimilar:
  "\<exists>rs. findSimilar twin_index (str ''a'') 5 = Inr (rs, twin_index) \<and>
     map r_id rs = [str ''b'']"
proof -
  have store: "map_of (articles twin_index) (str ''a'') = Some rwa_article"
    by (simp add: twin_index_def)
  have query: "join (str '' '') ([title rwa_article, summary rwa_article] @ keyPoints rwa_article)
      = str ''RWA ''"
    by (simp add: rwa_article_def article_with_def str_def)
  have was_fitted: "fitted (vectorizer twin_index)"
    by (simp add: twin_index_def)
  have "findSimilar twin_index (str ''a'') 5 =
      (case search twin_index (str ''RWA '') (5 + 1) 0.1 True of
         Inl e \<Rightarrow> Inl e
       | Inr (rs, ss1) \<Rightarrow> Inr (take 5 (filter (\<lambda>r. r_id r \<noteq> str ''a'') rs), ss1))"
    by (simp only: findSimilar_def store option.case query)
  then show ?thesis
    by (simp add: search_fitted [OF was_fitted] twin_index_rank r_id_enhance str_eq_iff)
qed

lemma twin_index_absent: "map_of (articles twin_index) (str ''zz'') = None"
  by (simp add: twin_index_def str_eq_iff)

theorem findSimilar_absent_and_self_witness:
  "indexArticles new_search [rwa_article, rwa_copy] = Inr twin_index \<and>
   map_of (articles twin_index) (str ''zz'') = None \<and>
   findSimilar twin_index (str ''zz'') 5 = Inr ([], twin_index) \<and>
   (\<exists>rs ss'. findSimilar twin_index (str ''a'') 5 = Inr (rs, ss') \<and>
      map r_id rs = [str ''b''] \<and> str ''a'' \<notin> r_id ` set rs)"
proof -
  have absent: "findSimilar twin_index (str ''zz'') 5 = Inr ([], twin_index)"
    using findSimilar_absent_and_self [of twin_index "str ''zz''" 5] twin_index_absent
    by auto
  obtain rs where rs: "findSimilar twin_index (str ''a'') 5 = Inr (rs, twin_index)"
    "map r_id rs = [str ''b'']"
    using twin_index_findSimilar by auto
  have "str ''a'' \<notin> r_id ` set rs"
    using findSimilar_absent_and_self [of twin_index "str ''a''" 5] rs(1) by auto
  with rs have "\<exists>rs ss'. findSimilar twin_index (str ''a'') 5 = Inr (rs, ss') \<and>
      map r_id rs = [str ''b''] \<and> str ''a'' \<notin> r_id ` set rs"
    by auto
  then show ?thesis
    using twin_indexed twin_index_absent absent by auto
qed


end
